theory Spec2Isabelle
  imports Main
begin

section \<open>Constants (utils/constants.js)\<close>

text \<open>
  All times are milliseconds and are modelled as \<open>int\<close>: the clocks are kept in whole
  milliseconds, as in the data model of the specification, and the fractional part of a
  monotonic-clock reading is left out. Move counts, period indices and byo-yomi moment
  counts are JavaScript numbers that only ever hold integers and are \<open>int\<close> as well. An
  optional configuration field (\<open>undefined\<close> in the source) is an \<open>option\<close>.
\<close>

datatype GameStatus = IDLE | RUNNING | PAUSED | FROZEN | CORRECTING

datatype Player = LEFT | RIGHT

datatype TimingMethodType =
  TIME | FISCHER | US_DELAY | DELAY | BYO_YOMI | CANADIAN_BYO | UPCOUNT | END

datatype FlagState = NONE | BLINKING | NON_BLINKING

datatype Color = White | Black

text \<open>The two exceptions the modelled code can raise.\<close>

datatype error =
  ConfigError   \<comment> \<open>\<open>new Error('Config must have at least one period')\<close>\<close>
| TypeError     \<comment> \<open>property access on \<open>null\<close> or \<open>undefined\<close>\<close>

text \<open>\<open>x || 0\<close> and \<open>x ?? 0\<close> on an optional number.\<close>

fun orZero :: "int option \<Rightarrow> int" where
  "orZero None = 0"
| "orZero (Some v) = v"

fun orFalse :: "bool option \<Rightarrow> bool" where
  "orFalse None = False"
| "orFalse (Some b) = b"

section \<open>Configuration\<close>

record PeriodConfig =
  cfg_method :: TimingMethodType
  cfg_timeMs :: "int option"
  cfg_delayMs :: "int option"
  cfg_movesRequired :: "int option"
  cfg_byoTimeMs :: "int option"
  cfg_byoMoments :: "int option"

text \<open>
  An option configuration. A missing \<open>periods\<close> array and an empty one take the same
  branch of every test the source makes on it, so both are the empty list.
\<close>

record OptionConfig =
  periods :: "PeriodConfig list"
  freezeDefault :: "bool option"
  soundDefault :: "bool option"
  leftTimeMs :: "int option"
  rightTimeMs :: "int option"

section \<open>PlayerState (state/PlayerState.js)\<close>

record PlayerState =
  side :: Player
  timeMs :: int
  currentPeriod :: int
  moves :: int
  flagState :: FlagState
  flagSetTime :: "int option"
  color :: Color
  delayRemainingMs :: int
  inDelay :: bool
  turnStartTimeMs :: int
  byoMomentsRemaining :: int
  byoMomentTimeMs :: int
  hasStarted :: bool

definition newPlayerState :: "Player \<Rightarrow> PlayerState" where
  "newPlayerState s =
     \<lparr> side = s, timeMs = 0, currentPeriod = 0, moves = 0, flagState = NONE,
       flagSetTime = None, color = (if s = LEFT then White else Black),
       delayRemainingMs = 0, inDelay = False, turnStartTimeMs = 0,
       byoMomentsRemaining = 0, byoMomentTimeMs = 0, hasStarted = False \<rparr>"

text \<open>
  \<open>PlayerState.init\<close> takes the object literal \<open>{timeMs, delayMs, byoMoments, byoTimeMs}\<close>;
  \<open>delayMs\<close> is not read.
\<close>

definition init :: "int option \<Rightarrow> int option \<Rightarrow> int option \<Rightarrow> PlayerState \<Rightarrow> PlayerState" where
  "init tMs bMoments bTimeMs p =
     p\<lparr> timeMs := orZero tMs, currentPeriod := 0, moves := 0, flagState := NONE,
        flagSetTime := None, delayRemainingMs := 0, inDelay := False,
        turnStartTimeMs := 0, byoMomentsRemaining := orZero bMoments,
        byoMomentTimeMs := orZero bTimeMs, hasStarted := False \<rparr>"

definition clearFlag :: "PlayerState \<Rightarrow> PlayerState" where
  "clearFlag p = p\<lparr> flagState := NONE, flagSetTime := None \<rparr>"

text \<open>\<open>setFlag\<close> reads \<open>Date.now()\<close>; the reading is the parameter \<open>now\<close>.\<close>

definition setFlag :: "FlagState \<Rightarrow> int \<Rightarrow> PlayerState \<Rightarrow> PlayerState" where
  "setFlag st now p = p\<lparr> flagState := st, flagSetTime := Some now \<rparr>"

section \<open>Timing methods (engine/TimingMethod.js, engine/methods/*.js)\<close>

text \<open>
  A method instance with the fields its constructor computes from the period
  configuration. The base class also keeps the configuration object itself, which no
  method reads afterwards.
\<close>

datatype TimingMethod =
  TimeMethod
| FischerMethod (bonusMs: int) (movesRequired: int)
| BronsteinDelayMethod (delayMs: int)
| UsDelayMethod (delayMs: int)
| ByoYomiMethod (byoTimeMs: int) (byoMoments: int) (momentsAtTurnStart: int)
| CanadianByoYomiMethod (byoTimeMs: int) (movesRequired: int) (movesInPeriod: int)
| UpcountMethod

text \<open>
  The value \<open>onTick\<close> returns. \<open>momentExpired\<close> is only set by byo-yomi and only tested
  for truthiness, so an absent field is \<open>False\<close>.
\<close>

record TickResult =
  expired :: bool
  remainingMs :: int
  momentExpired :: bool

definition tickExpired :: TickResult where
  "tickExpired = \<lparr> expired = True, remainingMs = 0, momentExpired = False \<rparr>"

definition tickRunning :: "int \<Rightarrow> TickResult" where
  "tickRunning r = \<lparr> expired = False, remainingMs = r, momentExpired = False \<rparr>"

definition tickMoment :: "int \<Rightarrow> TickResult" where
  "tickMoment r = \<lparr> expired = False, remainingMs = r, momentExpired = True \<rparr>"

subsection \<open>Plain countdown: TimeMethod, FischerMethod, BronsteinDelayMethod, CanadianByoYomiMethod\<close>

text \<open>The four classes have the same \<open>onTick\<close> body.\<close>

definition countdown_onTick :: "int \<Rightarrow> PlayerState \<Rightarrow> TickResult \<times> PlayerState" where
  "countdown_onTick deltaMs p =
     (let p1 = p\<lparr> timeMs := timeMs p - deltaMs \<rparr>
      in if timeMs p1 \<le> 0 then (tickExpired, p1\<lparr> timeMs := 0 \<rparr>)
         else (tickRunning (timeMs p1), p1))"

definition FischerMethod_onTurnEnd :: "int \<Rightarrow> PlayerState \<Rightarrow> PlayerState" where
  "FischerMethod_onTurnEnd bonus p =
     (if timeMs p \<le> 0 then p else p\<lparr> timeMs := timeMs p + bonus \<rparr>)"

definition isPeriodCompleteByMoves :: "int \<Rightarrow> PlayerState \<Rightarrow> int \<Rightarrow> bool" where
  "isPeriodCompleteByMoves required p periodStart =
     (if required \<le> 0 then False else moves p - periodStart \<ge> required)"

definition BronsteinDelayMethod_onTurnStart :: "PlayerState \<Rightarrow> PlayerState" where
  "BronsteinDelayMethod_onTurnStart p = p\<lparr> turnStartTimeMs := timeMs p \<rparr>"

definition BronsteinDelayMethod_onTurnEnd :: "int \<Rightarrow> PlayerState \<Rightarrow> PlayerState" where
  "BronsteinDelayMethod_onTurnEnd dMs p =
     (if timeMs p \<le> 0 then p
      else if turnStartTimeMs p \<le> 0 then p
      else
        let timeUsed = turnStartTimeMs p - timeMs p;
            compensation = min dMs (max 0 timeUsed);
            p1 = p\<lparr> timeMs := timeMs p + compensation \<rparr>
        in if timeMs p1 > turnStartTimeMs p1
           then p1\<lparr> timeMs := turnStartTimeMs p1 \<rparr>
           else p1)"

definition CanadianByoYomiMethod_reload :: "int \<Rightarrow> PlayerState \<Rightarrow> PlayerState" where
  "CanadianByoYomiMethod_reload byoT p = p\<lparr> timeMs := byoT \<rparr>"

subsection \<open>UsDelayMethod\<close>

definition UsDelayMethod_onTurnStart :: "int \<Rightarrow> PlayerState \<Rightarrow> PlayerState" where
  "UsDelayMethod_onTurnStart dMs p = p\<lparr> delayRemainingMs := dMs, inDelay := True \<rparr>"

definition UsDelayMethod_onTick :: "int \<Rightarrow> PlayerState \<Rightarrow> TickResult \<times> PlayerState" where
  "UsDelayMethod_onTick deltaMs p =
     (let p2 =
        (if inDelay p then
           let p1 = p\<lparr> delayRemainingMs := delayRemainingMs p - deltaMs \<rparr>
           in if delayRemainingMs p1 \<le> 0 then
                let overflow = - delayRemainingMs p1;
                    p1a = p1\<lparr> delayRemainingMs := 0, inDelay := False \<rparr>
                in if overflow > 0 then p1a\<lparr> timeMs := timeMs p1a - overflow \<rparr> else p1a
              else p1
         else p\<lparr> timeMs := timeMs p - deltaMs \<rparr>)
      in if timeMs p2 \<le> 0 then (tickExpired, p2\<lparr> timeMs := 0 \<rparr>)
         else (tickRunning (timeMs p2), p2))"

definition UsDelayMethod_onTurnEnd :: "PlayerState \<Rightarrow> PlayerState" where
  "UsDelayMethod_onTurnEnd p = p\<lparr> inDelay := False, delayRemainingMs := 0 \<rparr>"

subsection \<open>UpcountMethod\<close>

definition UpcountMethod_onTick :: "int \<Rightarrow> PlayerState \<Rightarrow> TickResult \<times> PlayerState" where
  "UpcountMethod_onTick deltaMs p =
     (let p1 = p\<lparr> timeMs := timeMs p + deltaMs \<rparr> in (tickRunning (timeMs p1), p1))"

subsection \<open>ByoYomiMethod\<close>

text \<open>
  The \<open>while\<close> loop of \<open>ByoYomiMethod.onTick\<close>. The first component of the result is the
  value of a \<open>return\<close> executed inside the loop, or \<open>None\<close> when the loop ends by its
  condition; the last one is the local \<open>momentExpired\<close>. Every iteration takes one
  moment, which is the measure.
\<close>

function byoYomiLoop :: "int \<Rightarrow> PlayerState \<Rightarrow> bool \<Rightarrow> TickResult option \<times> PlayerState \<times> bool" where
  "byoYomiLoop byoT p mExp =
     (if timeMs p \<le> 0 \<and> byoMomentsRemaining p > 0 then
        (if byoMomentsRemaining p - 1 \<le> 0
         then (Some tickExpired,
               p\<lparr> byoMomentsRemaining := byoMomentsRemaining p - 1, timeMs := 0 \<rparr>, True)
         else byoYomiLoop byoT
                (p\<lparr> byoMomentsRemaining := byoMomentsRemaining p - 1,
                     timeMs := timeMs p + byoT \<rparr>) True)
      else (None, p, mExp))"
  by pat_completeness auto
termination
  by (relation "measure (\<lambda>(byoT, p, mExp). nat (byoMomentsRemaining p))") auto

declare byoYomiLoop.simps [simp del]

definition ByoYomiMethod_onTick ::
  "int \<Rightarrow> int \<Rightarrow> int \<Rightarrow> PlayerState \<Rightarrow> TickResult \<times> PlayerState" where
  "ByoYomiMethod_onTick byoT byoM deltaMs p =
     (let p1 = p\<lparr> timeMs := timeMs p - deltaMs \<rparr>
      in if timeMs p1 \<le> 0 then
           (if byoM = 0 then
              let overflow = - timeMs p1;
                  p2 = p1\<lparr> timeMs := byoT - overflow \<rparr>;
                  p3 = (if timeMs p2 \<le> 0 then p2\<lparr> timeMs := 1 \<rparr> else p2)
              in (tickMoment (timeMs p3), p3)
            else
              (case byoYomiLoop byoT p1 False of
                 (Some r, p2, mExp) \<Rightarrow> (r, p2)
               | (None, p2, mExp) \<Rightarrow>
                   if timeMs p2 \<le> 0 then (tickExpired, p2\<lparr> timeMs := 0 \<rparr>)
                   else if mExp then (tickMoment (timeMs p2), p2)
                   else (tickRunning (timeMs p2), p2)))
         else (tickRunning (timeMs p1), p1))"

definition ByoYomiMethod_onTurnEnd :: "int \<Rightarrow> int \<Rightarrow> int \<Rightarrow> PlayerState \<Rightarrow> PlayerState" where
  "ByoYomiMethod_onTurnEnd byoT byoM atStart p =
     (if timeMs p > 0 then
        let momentsConsumed = atStart - (if byoM = 0 then atStart else byoMomentsRemaining p)
        in if momentsConsumed \<le> 0 then p\<lparr> timeMs := byoT \<rparr> else p
      else p)"

definition ByoYomiMethod_isExpired :: "int \<Rightarrow> PlayerState \<Rightarrow> bool" where
  "ByoYomiMethod_isExpired byoM p =
     (if byoM = 0 then False else timeMs p \<le> 0 \<and> byoMomentsRemaining p \<le> 0)"

subsection \<open>Dispatch on the method instance\<close>

fun onTurnStart :: "TimingMethod \<Rightarrow> PlayerState \<Rightarrow> TimingMethod \<times> PlayerState" where
  "onTurnStart (BronsteinDelayMethod d) p = (BronsteinDelayMethod d, BronsteinDelayMethod_onTurnStart p)"
| "onTurnStart (UsDelayMethod d) p = (UsDelayMethod d, UsDelayMethod_onTurnStart d p)"
| "onTurnStart (ByoYomiMethod t m s) p = (ByoYomiMethod t m (byoMomentsRemaining p), p)"
| "onTurnStart m p = (m, p)"

fun onTick :: "TimingMethod \<Rightarrow> int \<Rightarrow> PlayerState \<Rightarrow> TickResult \<times> PlayerState" where
  "onTick TimeMethod deltaMs p = countdown_onTick deltaMs p"
| "onTick (FischerMethod b r) deltaMs p = countdown_onTick deltaMs p"
| "onTick (BronsteinDelayMethod d) deltaMs p = countdown_onTick deltaMs p"
| "onTick (UsDelayMethod d) deltaMs p = UsDelayMethod_onTick deltaMs p"
| "onTick (ByoYomiMethod t m s) deltaMs p = ByoYomiMethod_onTick t m deltaMs p"
| "onTick (CanadianByoYomiMethod t r n) deltaMs p = countdown_onTick deltaMs p"
| "onTick UpcountMethod deltaMs p = UpcountMethod_onTick deltaMs p"

fun onTurnEnd :: "TimingMethod \<Rightarrow> PlayerState \<Rightarrow> TimingMethod \<times> PlayerState" where
  "onTurnEnd (FischerMethod b r) p = (FischerMethod b r, FischerMethod_onTurnEnd b p)"
| "onTurnEnd (BronsteinDelayMethod d) p = (BronsteinDelayMethod d, BronsteinDelayMethod_onTurnEnd d p)"
| "onTurnEnd (UsDelayMethod d) p = (UsDelayMethod d, UsDelayMethod_onTurnEnd p)"
| "onTurnEnd (ByoYomiMethod t m s) p = (ByoYomiMethod t m s, ByoYomiMethod_onTurnEnd t m s p)"
| "onTurnEnd (CanadianByoYomiMethod t r n) p = (CanadianByoYomiMethod t r (n + 1), p)"
| "onTurnEnd m p = (m, p)"

fun isExpired :: "TimingMethod \<Rightarrow> PlayerState \<Rightarrow> bool" where
  "isExpired (ByoYomiMethod t m s) p = ByoYomiMethod_isExpired m p"
| "isExpired UpcountMethod p = False"
| "isExpired m p = (timeMs p \<le> 0)"

fun getType :: "TimingMethod \<Rightarrow> TimingMethodType" where
  "getType TimeMethod = TIME"
| "getType (FischerMethod b r) = FISCHER"
| "getType (BronsteinDelayMethod d) = DELAY"
| "getType (UsDelayMethod d) = US_DELAY"
| "getType (ByoYomiMethod t m s) = BYO_YOMI"
| "getType (CanadianByoYomiMethod t r n) = CANADIAN_BYO"
| "getType UpcountMethod = UPCOUNT"

section \<open>GameState (state/GameState.js)\<close>

text \<open>
  The listener registry is left out: \<open>notify\<close> calls the listeners, which read the state
  and never write it.
\<close>

record GameState =
  status :: GameStatus
  activePlayer :: "Player option"
  left :: PlayerState
  right :: PlayerState
  selectedOption :: int
  optionConfig :: "OptionConfig option"
  freezeEnabled :: bool
  soundEnabled :: bool
  hasBeenStarted :: bool
  preCorrectionStatus :: "GameStatus option"

definition newGameState :: GameState where
  "newGameState =
     \<lparr> status = IDLE, activePlayer = None, left = newPlayerState LEFT,
       right = newPlayerState RIGHT, selectedOption = 1, optionConfig = None,
       freezeEnabled = False, soundEnabled = False, hasBeenStarted = False,
       preCorrectionStatus = None \<rparr>"

fun otherSide :: "Player \<Rightarrow> Player" where
  "otherSide LEFT = RIGHT"
| "otherSide RIGHT = LEFT"

fun getPlayer :: "Player \<Rightarrow> GameState \<Rightarrow> PlayerState" where
  "getPlayer LEFT g = left g"
| "getPlayer RIGHT g = right g"

definition getOpponent :: "Player \<Rightarrow> GameState \<Rightarrow> PlayerState" where
  "getOpponent s g = (if s = LEFT then right g else left g)"

text \<open>Writing through the reference that \<open>getPlayer\<close> returns.\<close>

fun setPlayer :: "Player \<Rightarrow> PlayerState \<Rightarrow> GameState \<Rightarrow> GameState" where
  "setPlayer LEFT p g = g\<lparr> left := p \<rparr>"
| "setPlayer RIGHT p g = g\<lparr> right := p \<rparr>"

text \<open>
  \<open>initGame\<close> writes the match-level fields first and validates the period list after
  that, so the state at the \<open>throw\<close> is part of the result: \<open>Inl\<close> carries the error
  together with the state the exception leaves behind.
\<close>

definition initGame :: "OptionConfig \<Rightarrow> GameState \<Rightarrow> (error \<times> GameState) + GameState" where
  "initGame config g =
     (let g1 = g\<lparr> optionConfig := Some config, status := IDLE, activePlayer := None,
                  hasBeenStarted := False,
                  freezeEnabled := orFalse (freezeDefault config),
                  soundEnabled := orFalse (soundDefault config) \<rparr>
      in case periods config of
           [] \<Rightarrow> Inl (ConfigError, g1)
         | firstPeriod # rest \<Rightarrow>
             let l = init (case leftTimeMs config of Some t \<Rightarrow> Some t | None \<Rightarrow> cfg_timeMs firstPeriod)
                          (cfg_byoMoments firstPeriod) (cfg_byoTimeMs firstPeriod) (left g1);
                 r = init (case rightTimeMs config of Some t \<Rightarrow> Some t | None \<Rightarrow> cfg_timeMs firstPeriod)
                          (cfg_byoMoments firstPeriod) (cfg_byoTimeMs firstPeriod) (right g1)
             in Inr (g1\<lparr> left := l\<lparr> color := White \<rparr>, right := r\<lparr> color := Black \<rparr> \<rparr>))"

definition startGame :: "Player \<Rightarrow> GameState \<Rightarrow> GameState" where
  "startGame s g =
     (let g1 = g\<lparr> activePlayer := Some (otherSide s), status := RUNNING, hasBeenStarted := True \<rparr>;
          g2 = setPlayer s ((getPlayer s g1)\<lparr> color := White \<rparr>) g1
      in setPlayer (otherSide s) ((getPlayer (otherSide s) g2)\<lparr> color := Black \<rparr>) g2)"

definition switchTurn :: "GameState \<Rightarrow> GameState" where
  "switchTurn g =
     (if status g \<noteq> RUNNING then g
      else case activePlayer g of
             None \<Rightarrow> g\<lparr> activePlayer := Some LEFT \<rparr>
           | Some s \<Rightarrow>
               (setPlayer s ((getPlayer s g)\<lparr> moves := moves (getPlayer s g) + 1 \<rparr>) g)
                 \<lparr> activePlayer := Some (otherSide s) \<rparr>)"

definition pause :: "GameState \<Rightarrow> GameState" where
  "pause g = (if status g = RUNNING then g\<lparr> status := PAUSED \<rparr> else g)"

definition resume :: "GameState \<Rightarrow> GameState" where
  "resume g = (if status g = PAUSED then g\<lparr> status := RUNNING \<rparr> else g)"

definition freeze :: "GameState \<Rightarrow> GameState" where
  "freeze g =
     (if status g = RUNNING \<or> status g = PAUSED then g\<lparr> status := FROZEN \<rparr> else g)"

definition enterCorrectionMode :: "GameState \<Rightarrow> GameState" where
  "enterCorrectionMode g =
     (if status g = PAUSED \<or> status g = FROZEN
      then g\<lparr> preCorrectionStatus := Some (status g), status := CORRECTING \<rparr>
      else g)"

definition exitCorrectionMode :: "GameState \<Rightarrow> GameState" where
  "exitCorrectionMode g =
     (if status g = CORRECTING
      then g\<lparr> status := (case preCorrectionStatus g of Some s \<Rightarrow> s | None \<Rightarrow> PAUSED),
              preCorrectionStatus := None \<rparr>
      else g)"

definition isInFinalPeriod :: "Player \<Rightarrow> GameState \<Rightarrow> bool" where
  "isInFinalPeriod s g =
     (case optionConfig g of
        None \<Rightarrow> True
      | Some config \<Rightarrow> currentPeriod (getPlayer s g) \<ge> int (length (periods config)) - 1)"

section \<open>MoveCounter (engine/MoveCounter.js)\<close>

record MoveCounter =
  leftMoves :: int
  rightMoves :: int

definition newMoveCounter :: MoveCounter where
  "newMoveCounter = \<lparr> leftMoves = 0, rightMoves = 0 \<rparr>"

definition recordMove :: "Player \<Rightarrow> MoveCounter \<Rightarrow> MoveCounter" where
  "recordMove s mc =
     (if s = LEFT then mc\<lparr> leftMoves := leftMoves mc + 1 \<rparr>
      else mc\<lparr> rightMoves := rightMoves mc + 1 \<rparr>)"

definition getMoves :: "Player \<Rightarrow> MoveCounter \<Rightarrow> int" where
  "getMoves s mc = (if s = LEFT then leftMoves mc else rightMoves mc)"

definition setMoves :: "Player \<Rightarrow> int \<Rightarrow> MoveCounter \<Rightarrow> MoveCounter" where
  "setMoves s n mc =
     (if s = LEFT then mc\<lparr> leftMoves := max 0 n \<rparr> else mc\<lparr> rightMoves := max 0 n \<rparr>)"

section \<open>PeriodManager (engine/PeriodManager.js)\<close>

text \<open>
  The application and its period manager hold the same \<open>GameState\<close> object. The model
  keeps it once, as the manager's field \<open>gameState\<close>, and the application reads and
  writes it there.
\<close>

record PeriodManager =
  gameState :: GameState
  activeMethods :: "Player \<rightharpoonup> TimingMethod"
  periodStartMoves :: "Player \<Rightarrow> int"

record PeriodResult =
  pr_expired :: bool
  periodTransition :: bool

definition newPeriodManager :: "GameState \<Rightarrow> PeriodManager" where
  "newPeriodManager g =
     \<lparr> gameState = g, activeMethods = Map.empty, periodStartMoves = (\<lambda>s. 0) \<rparr>"

definition createMethod :: "PeriodConfig \<Rightarrow> TimingMethod" where
  "createMethod c =
     (case cfg_method c of
        TIME \<Rightarrow> TimeMethod
      | FISCHER \<Rightarrow> FischerMethod (orZero (cfg_delayMs c)) (orZero (cfg_movesRequired c))
      | DELAY \<Rightarrow> BronsteinDelayMethod (orZero (cfg_delayMs c))
      | US_DELAY \<Rightarrow> UsDelayMethod (orZero (cfg_delayMs c))
      | BYO_YOMI \<Rightarrow> ByoYomiMethod (orZero (cfg_byoTimeMs c)) (orZero (cfg_byoMoments c)) 0
      | CANADIAN_BYO \<Rightarrow>
          CanadianByoYomiMethod (min (orZero (cfg_byoTimeMs c)) 599000)
            (orZero (cfg_movesRequired c)) 0
      | UPCOUNT \<Rightarrow> UpcountMethod
      | END \<Rightarrow> TimeMethod)"

definition pm_init :: "PeriodManager \<Rightarrow> PeriodManager" where
  "pm_init pm =
     (case optionConfig (gameState pm) of
        None \<Rightarrow> pm
      | Some config \<Rightarrow>
          (case periods config of
             [] \<Rightarrow> pm
           | firstPeriod # rest \<Rightarrow>
               pm\<lparr> activeMethods :=
                      [LEFT \<mapsto> createMethod firstPeriod, RIGHT \<mapsto> createMethod firstPeriod],
                    periodStartMoves := (\<lambda>s. 0) \<rparr>))"

definition pm_onTurnStart :: "Player \<Rightarrow> PeriodManager \<Rightarrow> PeriodManager" where
  "pm_onTurnStart s pm =
     (case activeMethods pm s of
        None \<Rightarrow> pm
      | Some m \<Rightarrow>
          (case onTurnStart m (getPlayer s (gameState pm)) of
             (m1, p1) \<Rightarrow>
               pm\<lparr> gameState := setPlayer s p1 (gameState pm),
                    activeMethods := (activeMethods pm)(s \<mapsto> m1) \<rparr>))"

definition pm_onTurnEnd :: "Player \<Rightarrow> PeriodManager \<Rightarrow> PeriodManager" where
  "pm_onTurnEnd s pm =
     (case activeMethods pm s of
        None \<Rightarrow> pm
      | Some m \<Rightarrow>
          (case onTurnEnd m (getPlayer s (gameState pm)) of
             (m1, p1) \<Rightarrow>
               pm\<lparr> gameState := setPlayer s p1 (gameState pm),
                    activeMethods := (activeMethods pm)(s \<mapsto> m1) \<rparr>))"

text \<open>\<open>_transitionPlayerToPeriod\<close>; its parameter \<open>oldConfig\<close> is not read.\<close>

definition transitionPlayerToPeriod ::
  "Player \<Rightarrow> int \<Rightarrow> PeriodConfig \<Rightarrow> PeriodManager \<Rightarrow> PeriodManager" where
  "transitionPlayerToPeriod s periodIdx newConfig pm =
     (let p0 = (getPlayer s (gameState pm))\<lparr> currentPeriod := periodIdx \<rparr>;
          newMethod = cfg_method newConfig;
          p1 = (if newMethod = BYO_YOMI then
                  p0\<lparr> byoMomentsRemaining := orZero (cfg_byoMoments newConfig),
                      byoMomentTimeMs := orZero (cfg_byoTimeMs newConfig),
                      timeMs := orZero (cfg_byoTimeMs newConfig) \<rparr>
                else if newMethod = CANADIAN_BYO then
                  p0\<lparr> timeMs := orZero (cfg_byoTimeMs newConfig) \<rparr>
                else if newMethod = UPCOUNT then p0\<lparr> timeMs := 0 \<rparr>
                else p0\<lparr> timeMs := timeMs p0 + orZero (cfg_timeMs newConfig) \<rparr>);
          p2 = p1\<lparr> delayRemainingMs := 0, inDelay := False \<rparr>
      in pm\<lparr> gameState := setPlayer s p2 (gameState pm),
              activeMethods := (activeMethods pm)(s \<mapsto> createMethod newConfig),
              periodStartMoves := (periodStartMoves pm)(s := moves p2) \<rparr>)"

definition flagBlinking :: "Player \<Rightarrow> int \<Rightarrow> PeriodManager \<Rightarrow> PeriodManager" where
  "flagBlinking s now pm =
     pm\<lparr> gameState := setPlayer s (setFlag BLINKING now (getPlayer s (gameState pm))) (gameState pm) \<rparr>"

text \<open>
  \<open>_transitionToNextPeriod\<close>. Reading \<open>config.periods\<close> of a missing configuration, or
  \<open>.method\<close> of the \<open>undefined\<close> that a negative index gives, throws.
\<close>

definition transitionToNextPeriod ::
  "Player \<Rightarrow> bool \<Rightarrow> int \<Rightarrow> PeriodManager \<Rightarrow> error + (PeriodResult \<times> PeriodManager)" where
  "transitionToNextPeriod s moveBasedTransition now pm =
     (case optionConfig (gameState pm) of
        None \<Rightarrow> Inl TypeError
      | Some config \<Rightarrow>
          let currentPeriodIdx = currentPeriod (getPlayer s (gameState pm));
              nextPeriodIdx = currentPeriodIdx + 1
          in if nextPeriodIdx \<ge> int (length (periods config)) then
               Inr (\<lparr> pr_expired = True, periodTransition = False \<rparr>, flagBlinking s now pm)
             else if nextPeriodIdx < 0 then Inl TypeError
             else
               let nextPeriodConfig = periods config ! nat nextPeriodIdx
               in if cfg_method nextPeriodConfig = END then
                    Inr (\<lparr> pr_expired = True, periodTransition = False \<rparr>, flagBlinking s now pm)
                  else if moveBasedTransition then
                    Inr (\<lparr> pr_expired = False, periodTransition = True \<rparr>,
                         transitionPlayerToPeriod s nextPeriodIdx nextPeriodConfig pm)
                  else
                    let pm1 = pm\<lparr> gameState :=
                                setPlayer s (setFlag NON_BLINKING now (getPlayer s (gameState pm)))
                                  (gameState pm) \<rparr>;
                        pm2 = transitionPlayerToPeriod s nextPeriodIdx nextPeriodConfig pm1;
                        pm3 = (if currentPeriod (getOpponent s (gameState pm2)) = currentPeriodIdx
                               then transitionPlayerToPeriod (if s = LEFT then RIGHT else LEFT)
                                      nextPeriodIdx nextPeriodConfig pm2
                               else pm2)
                    in Inr (\<lparr> pr_expired = False, periodTransition = True \<rparr>, pm3))"

definition handleExpiry ::
  "Player \<Rightarrow> int \<Rightarrow> PeriodManager \<Rightarrow> error + (PeriodResult \<times> PeriodManager)" where
  "handleExpiry s now pm =
     (if isInFinalPeriod s (gameState pm)
      then Inr (\<lparr> pr_expired = True, periodTransition = False \<rparr>, flagBlinking s now pm)
      else transitionToNextPeriod s False now pm)"

fun isFischerMethod :: "TimingMethod \<Rightarrow> bool" where
  "isFischerMethod (FischerMethod b r) = True"
| "isFischerMethod m = False"

definition pm_onTick ::
  "int \<Rightarrow> Player \<Rightarrow> int \<Rightarrow> PeriodManager \<Rightarrow> error + (PeriodResult \<times> PeriodManager)" where
  "pm_onTick deltaMs s now pm =
     (case activeMethods pm s of
        None \<Rightarrow> Inr (\<lparr> pr_expired = False, periodTransition = False \<rparr>, pm)
      | Some m \<Rightarrow>
          (case onTick m deltaMs (getPlayer s (gameState pm)) of
             (result, p1) \<Rightarrow>
               let pm1 = pm\<lparr> gameState := setPlayer s p1 (gameState pm) \<rparr>
               in if expired result then handleExpiry s now pm1
                  else if isFischerMethod m \<and>
                          isPeriodCompleteByMoves (movesRequired m) p1 (periodStartMoves pm1 s)
                       then transitionToNextPeriod s True now pm1
                       else Inr (\<lparr> pr_expired = False, periodTransition = False \<rparr>, pm1)))"

definition reloadCanadianByo :: "Player \<Rightarrow> PeriodManager \<Rightarrow> bool \<times> PeriodManager" where
  "reloadCanadianByo s pm =
     (case activeMethods pm s of
        Some (CanadianByoYomiMethod t r n) \<Rightarrow>
          (True,
           pm\<lparr> gameState :=
                  setPlayer s (clearFlag (CanadianByoYomiMethod_reload t (getPlayer s (gameState pm))))
                    (gameState pm),
                activeMethods := (activeMethods pm)(s \<mapsto> CanadianByoYomiMethod t r 0) \<rparr>)
      | _ \<Rightarrow> (False, pm))"

section \<open>TimerEngine (engine/TimerEngine.js)\<close>

text \<open>
  The engine reads two clocks and talks to the browser. Each reading is a parameter of
  the function that takes it (\<open>timestamp\<close> and \<open>perfNow\<close> from the monotonic clock,
  \<open>dateNow\<close> from the wall clock), \<open>rid\<close> is the handle \<open>requestAnimationFrame\<close> returns,
  and what the engine does to the outside is the list of effects it returns, in the
  order of the calls.
\<close>

datatype SchedulerEffect =
  Deliver int          \<comment> \<open>\<open>this._onTick(delta)\<close>\<close>
| RequestFrame         \<comment> \<open>\<open>requestAnimationFrame(this._boundTick)\<close>\<close>
| CancelFrame nat      \<comment> \<open>\<open>cancelAnimationFrame(this._rafId)\<close>\<close>
| AddListener          \<comment> \<open>\<open>document.addEventListener('visibilitychange', ...)\<close>\<close>
| RemoveListener

record TimerEngine =
  rafId :: "nat option"
  lastTimestamp :: int
  running :: bool
  hasTickCallback :: bool
  hiddenAtWallClock :: int

definition newTimerEngine :: TimerEngine where
  "newTimerEngine =
     \<lparr> rafId = None, lastTimestamp = 0, running = False, hasTickCallback = False,
       hiddenAtWallClock = 0 \<rparr>"

definition setTickCallback :: "TimerEngine \<Rightarrow> TimerEngine" where
  "setTickCallback te = te\<lparr> hasTickCallback := True \<rparr>"

definition cancelPending :: "TimerEngine \<Rightarrow> SchedulerEffect list \<times> TimerEngine" where
  "cancelPending te =
     (case rafId te of
        Some i \<Rightarrow> ([CancelFrame i], te\<lparr> rafId := None \<rparr>)
      | None \<Rightarrow> ([], te))"

definition te_start :: "int \<Rightarrow> nat \<Rightarrow> TimerEngine \<Rightarrow> SchedulerEffect list \<times> TimerEngine" where
  "te_start perfNow rid te =
     (if running te then ([], te)
      else ([RequestFrame, AddListener],
            te\<lparr> running := True, lastTimestamp := perfNow, rafId := Some rid \<rparr>))"

definition te_stop :: "TimerEngine \<Rightarrow> SchedulerEffect list \<times> TimerEngine" where
  "te_stop te =
     (if \<not> running te then ([], te)
      else case cancelPending (te\<lparr> running := False \<rparr>) of
             (es, te1) \<Rightarrow> (es @ [RemoveListener], te1))"

definition te_tick :: "int \<Rightarrow> nat \<Rightarrow> TimerEngine \<Rightarrow> SchedulerEffect list \<times> TimerEngine" where
  "te_tick timestamp rid te =
     (if \<not> running te then ([], te)
      else
        let delta = timestamp - lastTimestamp te;
            te1 = te\<lparr> lastTimestamp := timestamp \<rparr>;
            clampedDelta = min delta 1000
        in ((if hasTickCallback te1 \<and> clampedDelta > 0 then [Deliver clampedDelta] else [])
              @ [RequestFrame],
            te1\<lparr> rafId := Some rid \<rparr>))"

definition handleVisibilityChange ::
  "bool \<Rightarrow> int \<Rightarrow> int \<Rightarrow> nat \<Rightarrow> TimerEngine \<Rightarrow> SchedulerEffect list \<times> TimerEngine" where
  "handleVisibilityChange visible dateNow perfNow rid te =
     (if \<not> running te then ([], te)
      else if visible then
        (case cancelPending te of
           (es, te1) \<Rightarrow>
             let delta = dateNow - hiddenAtWallClock te1;
                 te2 = te1\<lparr> lastTimestamp := perfNow \<rparr>
             in (es @ (if hasTickCallback te2 \<and> delta > 0 then [Deliver delta] else [])
                   @ [RequestFrame],
                 te2\<lparr> rafId := Some rid \<rparr>))
      else
        (case cancelPending te of
           (es, te1) \<Rightarrow> (es, te1\<lparr> hiddenAtWallClock := dateNow \<rparr>)))"

text \<open>The deltas an effect list hands to the tick callback.\<close>

fun delivered :: "SchedulerEffect list \<Rightarrow> int list" where
  "delivered [] = []"
| "delivered (Deliver d # es) = d # delivered es"
| "delivered (e # es) = delivered es"

section \<open>App (app.js)\<close>

text \<open>
  The part of the application that decides on state: the tick callback and the callback
  that applies a correction. Display and sound calls are left out; they read the state
  and do not write it.
\<close>

record App =
  periodManager :: PeriodManager
  timerEngine :: TimerEngine
  moveCounter :: MoveCounter

text \<open>The constructor, followed by the \<open>setTickCallback\<close> call of \<open>App.init\<close>.\<close>

definition newApp :: App where
  "newApp =
     \<lparr> periodManager = newPeriodManager newGameState,
       timerEngine = setTickCallback newTimerEngine,
       moveCounter = newMoveCounter \<rparr>"

definition app_gameState :: "App \<Rightarrow> GameState" where
  "app_gameState app = gameState (periodManager app)"

definition app_onTick :: "int \<Rightarrow> int \<Rightarrow> App \<Rightarrow> error + App" where
  "app_onTick deltaMs now app =
     (if status (app_gameState app) \<noteq> RUNNING then Inr app
      else case activePlayer (app_gameState app) of
             None \<Rightarrow> Inr app
           | Some a \<Rightarrow>
               (case pm_onTick deltaMs a now (periodManager app) of
                  Inl e \<Rightarrow> Inl e
                | Inr (result, pm1) \<Rightarrow>
                    if pr_expired result then
                      let activeState = getPlayer a (gameState pm1);
                          pm2 = (if flagState activeState = NONE
                                 then pm1\<lparr> gameState :=
                                        setPlayer a (setFlag BLINKING now activeState) (gameState pm1) \<rparr>
                                 else pm1)
                      in if freezeEnabled (gameState pm2) \<and> isInFinalPeriod a (gameState pm2)
                         then Inr (app\<lparr> periodManager := pm2\<lparr> gameState := freeze (gameState pm2) \<rparr>,
                                        timerEngine := snd (te_stop (timerEngine app)) \<rparr>)
                         else Inr (app\<lparr> periodManager := pm2 \<rparr>)
                    else Inr (app\<lparr> periodManager := pm1 \<rparr>)))"

text \<open>The values the correction overlay hands to the apply callback.\<close>

record Corrected =
  c_leftTimeMs :: int
  c_rightTimeMs :: int
  c_leftMoves :: int
  c_rightMoves :: int
  c_leftPeriod :: int
  c_rightPeriod :: int

text \<open>\<open>periods[i]\<close>: \<open>undefined\<close> outside the array.\<close>

definition periodAt :: "PeriodConfig list \<Rightarrow> int \<Rightarrow> PeriodConfig option" where
  "periodAt ps i = (if 0 \<le> i \<and> i < int (length ps) then Some (ps ! nat i) else None)"

definition syncMethod :: "Player \<Rightarrow> PeriodConfig option \<Rightarrow> PeriodManager \<Rightarrow> PeriodManager" where
  "syncMethod s pc pm =
     (case pc of
        None \<Rightarrow> pm
      | Some c \<Rightarrow> pm\<lparr> activeMethods := (activeMethods pm)(s \<mapsto> createMethod c) \<rparr>)"

definition applyCorrection :: "Corrected \<Rightarrow> App \<Rightarrow> App" where
  "applyCorrection corrected app =
     (let pm = periodManager app;
          g = gameState pm;
          g1 = g\<lparr> left := (left g)\<lparr> timeMs := c_leftTimeMs corrected,
                                    moves := c_leftMoves corrected,
                                    currentPeriod := c_leftPeriod corrected \<rparr>,
                  right := (right g)\<lparr> timeMs := c_rightTimeMs corrected,
                                      moves := c_rightMoves corrected,
                                      currentPeriod := c_rightPeriod corrected \<rparr> \<rparr>;
          mc = setMoves RIGHT (c_rightMoves corrected)
                 (setMoves LEFT (c_leftMoves corrected) (moveCounter app));
          pm1 = (case optionConfig g1 of
                   None \<Rightarrow> pm\<lparr> gameState := g1 \<rparr>
                 | Some config \<Rightarrow>
                     let maxPeriod = int (length (periods config)) - 1;
                         g2 = g1\<lparr> left := (left g1)\<lparr> currentPeriod :=
                                             max 0 (min (c_leftPeriod corrected) maxPeriod) \<rparr>,
                                 right := (right g1)\<lparr> currentPeriod :=
                                             max 0 (min (c_rightPeriod corrected) maxPeriod) \<rparr> \<rparr>;
                         leftPeriodConfig = periodAt (periods config) (currentPeriod (left g2));
                         rightPeriodConfig = periodAt (periods config) (currentPeriod (right g2))
                     in syncMethod RIGHT rightPeriodConfig
                          (syncMethod LEFT leftPeriodConfig (pm\<lparr> gameState := g2 \<rparr>)))
      in app\<lparr> periodManager := pm1\<lparr> gameState := exitCorrectionMode (gameState pm1) \<rparr>,
              moveCounter := mc \<rparr>)"

section \<open>Matches used as examples\<close>

text \<open>
  The configurations of the unit tests and of the presets: sudden-death and byo-yomi
  periods with defaults for everything else. A started match is what the first tap on the
  right clock leaves behind (\<open>initGame\<close>, \<open>startGame\<close>, \<open>PeriodManager.init\<close>,
  \<open>PeriodManager.onTurnStart\<close> for the side to move, \<open>TimerEngine.start\<close>), with the left
  side to move; a match under correction is a started match after the pause (\<open>pause\<close>,
  \<open>TimerEngine.stop\<close>) and \<open>enterCorrectionMode\<close>; \<open>opponentAhead\<close> puts the right clock
  into the second period.
\<close>

abbreviation timePeriod :: "int \<Rightarrow> PeriodConfig" where
  "timePeriod t \<equiv>
     \<lparr> cfg_method = TIME, cfg_timeMs = Some t, cfg_delayMs = None, cfg_movesRequired = None,
       cfg_byoTimeMs = None, cfg_byoMoments = None \<rparr>"

abbreviation byoYomiPeriod :: "int \<Rightarrow> int \<Rightarrow> PeriodConfig" where
  "byoYomiPeriod t n \<equiv>
     \<lparr> cfg_method = BYO_YOMI, cfg_timeMs = None, cfg_delayMs = None, cfg_movesRequired = None,
       cfg_byoTimeMs = Some t, cfg_byoMoments = Some n \<rparr>"

abbreviation plainConfig :: "PeriodConfig list \<Rightarrow> bool \<Rightarrow> OptionConfig" where
  "plainConfig ps fr \<equiv>
     \<lparr> periods = ps, freezeDefault = Some fr, soundDefault = Some False,
       leftTimeMs = None, rightTimeMs = None \<rparr>"

abbreviation startedApp :: "OptionConfig \<Rightarrow> App" where
  "startedApp config \<equiv>
     newApp\<lparr> periodManager :=
               pm_onTurnStart LEFT
                 (pm_init (newPeriodManager (startGame RIGHT (projr (initGame config newGameState))))),
             timerEngine := snd (te_start 0 1 (timerEngine newApp)) \<rparr>"

abbreviation opponentAhead :: "App \<Rightarrow> App" where
  "opponentAhead app \<equiv>
     app\<lparr> periodManager :=
        (periodManager app)\<lparr> gameState :=
           (gameState (periodManager app))\<lparr> right :=
              (right (gameState (periodManager app)))\<lparr> currentPeriod := 1 \<rparr> \<rparr> \<rparr> \<rparr>"

abbreviation correctingApp :: "OptionConfig \<Rightarrow> App" where
  "correctingApp config \<equiv>
     (startedApp config)\<lparr> periodManager :=
        (periodManager (startedApp config))\<lparr> gameState :=
           enterCorrectionMode (pause (gameState (periodManager (startedApp config)))) \<rparr>,
        timerEngine := snd (te_stop (timerEngine (startedApp config))) \<rparr>"

section \<open>Helper lemmas\<close>

text \<open>What the byo-yomi loop returns, by induction along its own recursion.\<close>

lemma byoYomiLoop_spec:
  "byoYomiLoop byoT p e = (ro, p', e') \<Longrightarrow>
     (ro = Some tickExpired \<and> timeMs p' = 0 \<and> byoMomentsRemaining p' \<le> 0
        \<and> byoMomentsRemaining p' < byoMomentsRemaining p)
   \<or> (ro = None
        \<and> byoMomentsRemaining p' \<le> byoMomentsRemaining p
        \<and> timeMs p' = timeMs p + (byoMomentsRemaining p - byoMomentsRemaining p') * byoT
        \<and> (0 < timeMs p' \<or> byoMomentsRemaining p' \<le> 0 \<and> p' = p)
        \<and> (byoMomentsRemaining p' < byoMomentsRemaining p \<longrightarrow> timeMs p' \<le> byoT \<and> e')
        \<and> (byoMomentsRemaining p' = byoMomentsRemaining p \<longrightarrow> p' = p \<and> e' = e))"
proof (induction byoT p e arbitrary: ro p' e' rule: byoYomiLoop.induct)
  case (1 byoT p mExp)
  show ?case
  proof (cases "timeMs p \<le> 0 \<and> byoMomentsRemaining p > 0")
    case False
    with "1.prems" show ?thesis
      by (subst (asm) byoYomiLoop.simps) auto
  next
    case enter: True
    show ?thesis
    proof (cases "byoMomentsRemaining p - 1 \<le> 0")
      case True
      with enter "1.prems" show ?thesis
        by (subst (asm) byoYomiLoop.simps) auto
    next
      case False
      let ?q = "p\<lparr> byoMomentsRemaining := byoMomentsRemaining p - 1, timeMs := timeMs p + byoT \<rparr>"
      from enter False "1.prems" have rec: "byoYomiLoop byoT ?q True = (ro, p', e')"
        by (subst (asm) byoYomiLoop.simps) simp
      from "1.IH" [OF enter False rec]
      show ?thesis
      proof (rule disjE)
        assume "ro = Some tickExpired \<and> timeMs p' = 0 \<and> byoMomentsRemaining p' \<le> 0
          \<and> byoMomentsRemaining p' < byoMomentsRemaining ?q"
        then show ?thesis by simp
      next
        assume a: "ro = None
          \<and> byoMomentsRemaining p' \<le> byoMomentsRemaining ?q
          \<and> timeMs p' = timeMs ?q + (byoMomentsRemaining ?q - byoMomentsRemaining p') * byoT
          \<and> (0 < timeMs p' \<or> byoMomentsRemaining p' \<le> 0 \<and> p' = ?q)
          \<and> (byoMomentsRemaining p' < byoMomentsRemaining ?q \<longrightarrow> timeMs p' \<le> byoT \<and> e')
          \<and> (byoMomentsRemaining p' = byoMomentsRemaining ?q \<longrightarrow> p' = ?q \<and> e' = True)"
        have le: "byoMomentsRemaining p' \<le> byoMomentsRemaining p - 1"
          using a by simp
        have t: "timeMs p' = timeMs p + (byoMomentsRemaining p - byoMomentsRemaining p') * byoT"
          using a by (simp add: algebra_simps)
        have pos: "0 < timeMs p'" using a False by auto
        have small: "timeMs p' \<le> byoT \<and> e'"
        proof (cases "byoMomentsRemaining p' < byoMomentsRemaining ?q")
          case True then show ?thesis using a by simp
        next
          case False
          with le have "byoMomentsRemaining p' = byoMomentsRemaining ?q" by simp
          with a have "p' = ?q" "e'" by simp_all
          with enter show ?thesis by simp
        qed
        from a le t pos small show ?thesis by simp
      qed
    qed
  qed
qed

lemma byoYomiLoop_one_moment:
  assumes "timeMs p \<le> 0" "1 < byoMomentsRemaining p" "0 < timeMs p + byoT"
  shows "byoYomiLoop byoT p e =
           (None, p\<lparr> byoMomentsRemaining := byoMomentsRemaining p - 1,
                      timeMs := timeMs p + byoT \<rparr>, True)"
proof -
  let ?q = "p\<lparr> byoMomentsRemaining := byoMomentsRemaining p - 1, timeMs := timeMs p + byoT \<rparr>"
  have step: "byoYomiLoop byoT p e = byoYomiLoop byoT ?q True"
    using assms by (subst byoYomiLoop.simps) simp
  have stop: "byoYomiLoop byoT ?q True = (None, ?q, True)"
    using assms by (subst byoYomiLoop.simps) simp
  from step stop show ?thesis by simp
qed

lemma ByoYomiMethod_onTick_finite:
  assumes "byoM \<noteq> 0" "ByoYomiMethod_onTick byoT byoM deltaMs p = (r, p')"
  shows "(expired r \<longrightarrow> timeMs p' = 0 \<and> byoMomentsRemaining p' \<le> 0)
       \<and> (\<not> expired r \<longrightarrow>
            0 < timeMs p'
          \<and> byoMomentsRemaining p' \<le> byoMomentsRemaining p
          \<and> timeMs p' = timeMs p - deltaMs
                          + (byoMomentsRemaining p - byoMomentsRemaining p') * byoT
          \<and> momentExpired r = (byoMomentsRemaining p' < byoMomentsRemaining p)
          \<and> (byoMomentsRemaining p' < byoMomentsRemaining p \<longrightarrow> timeMs p' \<le> byoT))"
proof (cases "timeMs p - deltaMs \<le> 0")
  case False
  with assms show ?thesis
    by (auto simp: ByoYomiMethod_onTick_def Let_def tickRunning_def)
next
  case True
  let ?p1 = "p\<lparr> timeMs := timeMs p - deltaMs \<rparr>"
  obtain ro p2 e2 where loop: "byoYomiLoop byoT ?p1 False = (ro, p2, e2)"
    by (cases "byoYomiLoop byoT ?p1 False") auto
  note spec = byoYomiLoop_spec [OF loop]
  show ?thesis
  proof (cases ro)
    case (Some x)
    with spec have "x = tickExpired" "timeMs p2 = 0" "byoMomentsRemaining p2 \<le> 0" by auto
    with assms True loop Some show ?thesis
      by (auto simp: ByoYomiMethod_onTick_def Let_def tickExpired_def)
  next
    case None
    with spec have s:
      "byoMomentsRemaining p2 \<le> byoMomentsRemaining p"
      "timeMs p2 = timeMs p - deltaMs + (byoMomentsRemaining p - byoMomentsRemaining p2) * byoT"
      "0 < timeMs p2 \<or> byoMomentsRemaining p2 \<le> 0 \<and> p2 = ?p1"
      "byoMomentsRemaining p2 < byoMomentsRemaining p \<longrightarrow> timeMs p2 \<le> byoT \<and> e2"
      "byoMomentsRemaining p2 = byoMomentsRemaining p \<longrightarrow> p2 = ?p1 \<and> e2 = False"
      by auto
    show ?thesis
    proof (cases "timeMs p2 \<le> 0")
      case exp: True
      with s(3) have "byoMomentsRemaining p2 \<le> 0" by auto
      with assms True loop None exp show ?thesis
        by (auto simp: ByoYomiMethod_onTick_def Let_def tickExpired_def)
    next
      case pos: False
      have consumed: "byoMomentsRemaining p2 < byoMomentsRemaining p"
      proof (rule ccontr)
        assume "\<not> byoMomentsRemaining p2 < byoMomentsRemaining p"
        with s(1) have "byoMomentsRemaining p2 = byoMomentsRemaining p" by simp
        with s(5) have "p2 = ?p1" by simp
        with True pos show False by simp
      qed
      with s(4) have e2: "e2" and small: "timeMs p2 \<le> byoT" by simp_all
      from assms True loop None pos e2 have "r = tickMoment (timeMs p2)" "p' = p2"
        by (auto simp: ByoYomiMethod_onTick_def Let_def)
      with s(1) s(2) consumed small pos show ?thesis
        by (simp add: tickMoment_def)
    qed
  qed
qed

text \<open>A tick writes the time and the delay and moment fields of a clock and nothing else.\<close>

lemma byoYomiLoop_frame:
  "byoYomiLoop byoT p e = (ro, p', e') \<Longrightarrow>
     \<exists>t n. p' = p\<lparr> timeMs := t, byoMomentsRemaining := n \<rparr>"
proof (induction byoT p e arbitrary: ro p' e' rule: byoYomiLoop.induct)
  case (1 byoT p mExp)
  show ?case
  proof (cases "timeMs p \<le> 0 \<and> byoMomentsRemaining p > 0")
    case False
    with "1.prems" have "p' = p" by (subst (asm) byoYomiLoop.simps) auto
    then have "p' = p\<lparr> timeMs := timeMs p, byoMomentsRemaining := byoMomentsRemaining p \<rparr>" by simp
    then show ?thesis by blast
  next
    case enter: True
    show ?thesis
    proof (cases "byoMomentsRemaining p - 1 \<le> 0")
      case True
      with enter "1.prems" have "p' = p\<lparr> timeMs := 0, byoMomentsRemaining := byoMomentsRemaining p - 1 \<rparr>"
        by (subst (asm) byoYomiLoop.simps) auto
      then show ?thesis by blast
    next
      case False
      let ?q = "p\<lparr> byoMomentsRemaining := byoMomentsRemaining p - 1, timeMs := timeMs p + byoT \<rparr>"
      from enter False "1.prems" have rec: "byoYomiLoop byoT ?q True = (ro, p', e')"
        by (subst (asm) byoYomiLoop.simps) simp
      from "1.IH" [OF enter False rec] obtain t n where "p' = ?q\<lparr> timeMs := t, byoMomentsRemaining := n \<rparr>"
        by blast
      then have "p' = p\<lparr> timeMs := t, byoMomentsRemaining := n \<rparr>" by simp
      then show ?thesis by blast
    qed
  qed
qed

lemma onTick_frame:
  assumes "onTick m deltaMs p = (r, p')"
  shows "currentPeriod p' = currentPeriod p \<and> flagState p' = flagState p
       \<and> flagSetTime p' = flagSetTime p \<and> moves p' = moves p"
proof (cases m)
  case (ByoYomiMethod t bm s)
  obtain ro p2 e2 where loop: "byoYomiLoop t (p\<lparr> timeMs := timeMs p - deltaMs \<rparr>) False = (ro, p2, e2)"
    by (cases "byoYomiLoop t (p\<lparr> timeMs := timeMs p - deltaMs \<rparr>) False") auto
  from byoYomiLoop_frame [OF loop] obtain t' n where
    "p2 = p\<lparr> timeMs := timeMs p - deltaMs \<rparr>\<lparr> timeMs := t', byoMomentsRemaining := n \<rparr>" by blast
  with assms ByoYomiMethod loop show ?thesis
    by (auto simp: ByoYomiMethod_onTick_def Let_def split: if_splits option.splits)
qed (use assms in \<open>auto simp: countdown_onTick_def UsDelayMethod_onTick_def UpcountMethod_onTick_def
      Let_def split: if_splits\<close>)

text \<open>
  Whenever the period manager reports expiry, it has set the blinking flag on the ticked
  side and changed nothing else after the method's own tick.
\<close>

lemma pm_onTick_expired:
  assumes "pm_onTick deltaMs a now pm = Inr (res, pm1)" "pr_expired res"
  shows "\<exists>m. activeMethods pm a = Some m
     \<and> pm1 = flagBlinking a now
           (pm\<lparr> gameState := setPlayer a (snd (onTick m deltaMs (getPlayer a (gameState pm)))) (gameState pm) \<rparr>)"
  using assms
  by (auto simp: pm_onTick_def handleExpiry_def transitionToNextPeriod_def Let_def
      split: option.splits prod.splits if_splits)

text \<open>Reading a clock back after writing it, and what writing a clock leaves alone.\<close>

lemma getPlayer_setPlayer [simp]: "getPlayer s (setPlayer s p g) = p"
  by (cases s) simp_all

lemma setPlayer_frame [simp]:
  "status (setPlayer s p g) = status g"
  "activePlayer (setPlayer s p g) = activePlayer g"
  "optionConfig (setPlayer s p g) = optionConfig g"
  "freezeEnabled (setPlayer s p g) = freezeEnabled g"
  by (cases s; simp)+

section \<open>Bronstein delay: compensation at turn end\<close>

text \<open>
  Claim C3. For a Bronstein turn that ends with positive remaining time and a positive
  turn-start snapshot, \<open>onTurnEnd\<close> adds back the smaller of the per-move delay and the
  time used in the turn; the result is at most the snapshot and at least the smaller of
  "remaining after the ticks plus the delay" and the snapshot. With an expired clock or a
  snapshot that is not positive, \<open>onTurnEnd\<close> changes nothing. The snapshot is the
  remaining time \<open>onTurnStart\<close> saw.
\<close>

theorem bronstein_turn_end_cap:
  "(0 < timeMs p \<and> 0 < turnStartTimeMs p \<longrightarrow>
      timeMs (BronsteinDelayMethod_onTurnEnd d p)
        = timeMs p + min d (turnStartTimeMs p - timeMs p)
    \<and> timeMs (BronsteinDelayMethod_onTurnEnd d p) \<le> turnStartTimeMs p
    \<and> min (timeMs p + d) (turnStartTimeMs p) \<le> timeMs (BronsteinDelayMethod_onTurnEnd d p))
   \<and> (timeMs p \<le> 0 \<or> turnStartTimeMs p \<le> 0 \<longrightarrow> BronsteinDelayMethod_onTurnEnd d p = p)
   \<and> turnStartTimeMs (BronsteinDelayMethod_onTurnStart p) = timeMs p"
  by (auto simp: BronsteinDelayMethod_onTurnEnd_def BronsteinDelayMethod_onTurnStart_def Let_def)

theorem bronstein_turn_end_cap_witness:
  "0 < timeMs ((newPlayerState LEFT)\<lparr> timeMs := 1485000, turnStartTimeMs := 1500000 \<rparr>)
   \<and> 0 < turnStartTimeMs ((newPlayerState LEFT)\<lparr> timeMs := 1485000, turnStartTimeMs := 1500000 \<rparr>)
   \<and> timeMs (BronsteinDelayMethod_onTurnEnd 10000
        ((newPlayerState LEFT)\<lparr> timeMs := 1485000, turnStartTimeMs := 1500000 \<rparr>)) = 1495000
   \<and> timeMs ((newPlayerState LEFT)\<lparr> timeMs := 0, turnStartTimeMs := 500 \<rparr>) \<le> 0
   \<and> BronsteinDelayMethod_onTurnEnd 10000 ((newPlayerState LEFT)\<lparr> timeMs := 0, turnStartTimeMs := 500 \<rparr>)
       = (newPlayerState LEFT)\<lparr> timeMs := 0, turnStartTimeMs := 500 \<rparr>"
  using bronstein_turn_end_cap [of "(newPlayerState LEFT)\<lparr> timeMs := 1485000, turnStartTimeMs := 1500000 \<rparr>" 10000]
        bronstein_turn_end_cap [of "(newPlayerState LEFT)\<lparr> timeMs := 0, turnStartTimeMs := 500 \<rparr>" 10000]
  by (simp add: newPlayerState_def)

section \<open>Byo-yomi: moments and overflow\<close>

text \<open>
  Claim C4. In finite mode (the configured moment count is not 0), with more than one
  moment remaining and the full moment time \<open>byoT\<close> on the clock, one tick of
  \<open>byoT + k\<close> with \<open>0 < k < byoT\<close> takes exactly one moment, reports
  \<open>momentExpired\<close> without expiry and leaves \<open>byoT - k\<close>. For any tick in finite mode that
  does not expire, the remaining time is positive and equals the old time minus the delta
  plus one moment time per consumed moment (the negative overflow is carried through
  every reload), \<open>momentExpired\<close> is reported exactly when a moment was consumed, and the
  last reload was needed. Expiry is reported only in finite mode with no moment left, and
  then the remaining time is 0.
\<close>

theorem byo_yomi_moment_carry:
  "(m \<noteq> 0 \<and> 1 < byoMomentsRemaining p \<and> timeMs p = byoT \<and> 0 < k \<and> k < byoT \<longrightarrow>
      onTick (ByoYomiMethod byoT m s) (byoT + k) p
        = (tickMoment (byoT - k),
           p\<lparr> byoMomentsRemaining := byoMomentsRemaining p - 1, timeMs := byoT - k \<rparr>))
   \<and> (m \<noteq> 0 \<and> \<not> expired (fst (onTick (ByoYomiMethod byoT m s) deltaMs p)) \<longrightarrow>
        0 < timeMs (snd (onTick (ByoYomiMethod byoT m s) deltaMs p))
      \<and> byoMomentsRemaining (snd (onTick (ByoYomiMethod byoT m s) deltaMs p)) \<le> byoMomentsRemaining p
      \<and> timeMs (snd (onTick (ByoYomiMethod byoT m s) deltaMs p))
          = timeMs p - deltaMs
            + (byoMomentsRemaining p
               - byoMomentsRemaining (snd (onTick (ByoYomiMethod byoT m s) deltaMs p))) * byoT
      \<and> momentExpired (fst (onTick (ByoYomiMethod byoT m s) deltaMs p))
          = (byoMomentsRemaining (snd (onTick (ByoYomiMethod byoT m s) deltaMs p))
             < byoMomentsRemaining p)
      \<and> (byoMomentsRemaining (snd (onTick (ByoYomiMethod byoT m s) deltaMs p))
           < byoMomentsRemaining p \<longrightarrow>
         timeMs (snd (onTick (ByoYomiMethod byoT m s) deltaMs p)) \<le> byoT))
   \<and> (expired (fst (onTick (ByoYomiMethod byoT m s) deltaMs p)) \<longrightarrow>
        m \<noteq> 0
      \<and> timeMs (snd (onTick (ByoYomiMethod byoT m s) deltaMs p)) = 0
      \<and> byoMomentsRemaining (snd (onTick (ByoYomiMethod byoT m s) deltaMs p)) \<le> 0)"
proof (intro conjI impI)
  assume h: "m \<noteq> 0 \<and> 1 < byoMomentsRemaining p \<and> timeMs p = byoT \<and> 0 < k \<and> k < byoT"
  let ?p1 = "p\<lparr> timeMs := timeMs p - (byoT + k) \<rparr>"
  from h have "byoYomiLoop byoT ?p1 False =
      (None, ?p1\<lparr> byoMomentsRemaining := byoMomentsRemaining ?p1 - 1,
                  timeMs := timeMs ?p1 + byoT \<rparr>, True)"
    by (intro byoYomiLoop_one_moment) simp_all
  with h show "onTick (ByoYomiMethod byoT m s) (byoT + k) p
        = (tickMoment (byoT - k),
           p\<lparr> byoMomentsRemaining := byoMomentsRemaining p - 1, timeMs := byoT - k \<rparr>)"
    by (simp add: ByoYomiMethod_onTick_def Let_def)
next
  assume h: "m \<noteq> 0 \<and> \<not> expired (fst (onTick (ByoYomiMethod byoT m s) deltaMs p))"
  obtain r p' where R: "ByoYomiMethod_onTick byoT m deltaMs p = (r, p')"
    by (cases "ByoYomiMethod_onTick byoT m deltaMs p") auto
  from h have m0: "m \<noteq> 0" by simp
  from h R have ne: "\<not> expired r" by simp
  from ByoYomiMethod_onTick_finite [OF m0 R] ne
  have fin: "0 < timeMs p' \<and> byoMomentsRemaining p' \<le> byoMomentsRemaining p
      \<and> timeMs p' = timeMs p - deltaMs + (byoMomentsRemaining p - byoMomentsRemaining p') * byoT
      \<and> momentExpired r = (byoMomentsRemaining p' < byoMomentsRemaining p)
      \<and> (byoMomentsRemaining p' < byoMomentsRemaining p \<longrightarrow> timeMs p' \<le> byoT)"
    by blast
  from fin R show "0 < timeMs (snd (onTick (ByoYomiMethod byoT m s) deltaMs p))" by simp
  from fin R show "byoMomentsRemaining (snd (onTick (ByoYomiMethod byoT m s) deltaMs p))
      \<le> byoMomentsRemaining p" by simp
  from fin R show "timeMs (snd (onTick (ByoYomiMethod byoT m s) deltaMs p))
          = timeMs p - deltaMs
            + (byoMomentsRemaining p
               - byoMomentsRemaining (snd (onTick (ByoYomiMethod byoT m s) deltaMs p))) * byoT"
    by simp
  from fin R show "momentExpired (fst (onTick (ByoYomiMethod byoT m s) deltaMs p))
          = (byoMomentsRemaining (snd (onTick (ByoYomiMethod byoT m s) deltaMs p))
             < byoMomentsRemaining p)" by simp
  assume "byoMomentsRemaining (snd (onTick (ByoYomiMethod byoT m s) deltaMs p))
           < byoMomentsRemaining p"
  with fin R show "timeMs (snd (onTick (ByoYomiMethod byoT m s) deltaMs p)) \<le> byoT" by simp
next
  assume h: "expired (fst (onTick (ByoYomiMethod byoT m s) deltaMs p))"
  then show m0: "m \<noteq> 0"
    by (auto simp: ByoYomiMethod_onTick_def Let_def tickMoment_def tickRunning_def split: if_splits)
  obtain r p' where R: "ByoYomiMethod_onTick byoT m deltaMs p = (r, p')"
    by (cases "ByoYomiMethod_onTick byoT m deltaMs p") auto
  from h R have ex: "expired r" by simp
  from ByoYomiMethod_onTick_finite [OF m0 R] ex
  have fin: "timeMs p' = 0 \<and> byoMomentsRemaining p' \<le> 0" by blast
  from fin R show "timeMs (snd (onTick (ByoYomiMethod byoT m s) deltaMs p)) = 0" by simp
  from fin R show "byoMomentsRemaining (snd (onTick (ByoYomiMethod byoT m s) deltaMs p)) \<le> 0" by simp
qed

theorem byo_yomi_moment_carry_witness:
  "(5::int) \<noteq> 0
   \<and> 1 < byoMomentsRemaining ((newPlayerState LEFT)\<lparr> timeMs := 60000, byoMomentsRemaining := 5 \<rparr>)
   \<and> timeMs ((newPlayerState LEFT)\<lparr> timeMs := 60000, byoMomentsRemaining := 5 \<rparr>) = 60000
   \<and> (0::int) < 100 \<and> (100::int) < 60000
   \<and> onTick (ByoYomiMethod 60000 5 0) (60000 + 100)
        ((newPlayerState LEFT)\<lparr> timeMs := 60000, byoMomentsRemaining := 5 \<rparr>)
       = (tickMoment 59900, (newPlayerState LEFT)\<lparr> timeMs := 59900, byoMomentsRemaining := 4 \<rparr>)
   \<and> \<not> expired (fst (onTick (ByoYomiMethod 60000 5 0) 130000
        ((newPlayerState LEFT)\<lparr> timeMs := 60000, byoMomentsRemaining := 5 \<rparr>)))
   \<and> timeMs (snd (onTick (ByoYomiMethod 60000 5 0) 130000
        ((newPlayerState LEFT)\<lparr> timeMs := 60000, byoMomentsRemaining := 5 \<rparr>))) = 50000
   \<and> byoMomentsRemaining (snd (onTick (ByoYomiMethod 60000 5 0) 130000
        ((newPlayerState LEFT)\<lparr> timeMs := 60000, byoMomentsRemaining := 5 \<rparr>))) = 3
   \<and> expired (fst (onTick (ByoYomiMethod 60000 5 0) 200
        ((newPlayerState LEFT)\<lparr> timeMs := 100, byoMomentsRemaining := 1 \<rparr>)))
   \<and> timeMs (snd (onTick (ByoYomiMethod 60000 5 0) 200
        ((newPlayerState LEFT)\<lparr> timeMs := 100, byoMomentsRemaining := 1 \<rparr>))) = 0"
  using byo_yomi_moment_carry [where m = 5 and byoT = 60000 and k = 100 and s = 0
          and deltaMs = 130000
          and p = "(newPlayerState LEFT)\<lparr> timeMs := 60000, byoMomentsRemaining := 5 \<rparr>"]
        byo_yomi_moment_carry [where m = 5 and byoT = 60000 and k = 100 and s = 0
          and deltaMs = 200
          and p = "(newPlayerState LEFT)\<lparr> timeMs := 100, byoMomentsRemaining := 1 \<rparr>"]
  by (simp add: newPlayerState_def ByoYomiMethod_onTick_def byoYomiLoop.simps Let_def
        tickMoment_def tickExpired_def tickRunning_def)

section \<open>US delay: the delay phase\<close>

text \<open>
  Claim C5 as stated fails on a clock whose main time is below the overflow: with 5 ms of
  main time, a delay of 10 ms and one tick of 10 + 10 ms, the main time ends at 0, not
  at 5 - 10.
\<close>

theorem us_delay_overflow_counterexample:
  "timeMs (snd (UsDelayMethod_onTick (10 + 10)
      ((newPlayerState LEFT)\<lparr> timeMs := 5, delayRemainingMs := 10, inDelay := True \<rparr>)))
   \<noteq> timeMs ((newPlayerState LEFT)\<lparr> timeMs := 5, delayRemainingMs := 10, inDelay := True \<rparr>) - 10"
  by (simp add: UsDelayMethod_onTick_def newPlayerState_def Let_def)

text \<open>
  Claim C5, amended. In the delay phase with \<open>d\<close> ms of delay left, one tick of
  \<open>d + k\<close> with \<open>k > 0\<close> ends with \<open>inDelay = false\<close>, \<open>delayRemaining = 0\<close> and the main
  time at \<open>max 0 (main - k)\<close>: reduced by exactly \<open>k\<close> when it exceeds \<open>k\<close>, clamped to 0
  with expiry reported otherwise. With a delta below \<open>d\<close> the clock stays in the delay
  phase, the delay goes down by the delta, and the main time is untouched apart from the
  clamp of a negative value to 0.
\<close>

theorem us_delay_overflow_clamped:
  "(inDelay p \<and> 0 < k \<longrightarrow>
      inDelay (snd (UsDelayMethod_onTick (delayRemainingMs p + k) p)) = False
    \<and> delayRemainingMs (snd (UsDelayMethod_onTick (delayRemainingMs p + k) p)) = 0
    \<and> timeMs (snd (UsDelayMethod_onTick (delayRemainingMs p + k) p)) = max 0 (timeMs p - k)
    \<and> expired (fst (UsDelayMethod_onTick (delayRemainingMs p + k) p)) = (timeMs p \<le> k))
   \<and> (inDelay p \<and> deltaMs < delayRemainingMs p \<longrightarrow>
      inDelay (snd (UsDelayMethod_onTick deltaMs p)) = True
    \<and> delayRemainingMs (snd (UsDelayMethod_onTick deltaMs p)) = delayRemainingMs p - deltaMs
    \<and> timeMs (snd (UsDelayMethod_onTick deltaMs p)) = max 0 (timeMs p))"
  by (auto simp: UsDelayMethod_onTick_def Let_def tickExpired_def tickRunning_def)

theorem us_delay_overflow_clamped_witness:
  "inDelay ((newPlayerState LEFT)\<lparr> timeMs := 300000, delayRemainingMs := 5000, inDelay := True \<rparr>)
   \<and> (0::int) < 2000
   \<and> UsDelayMethod_onTick (5000 + 2000)
        ((newPlayerState LEFT)\<lparr> timeMs := 300000, delayRemainingMs := 5000, inDelay := True \<rparr>)
       = (tickRunning 298000,
          (newPlayerState LEFT)\<lparr> timeMs := 298000, delayRemainingMs := 0, inDelay := False \<rparr>)
   \<and> (2000::int) < delayRemainingMs
        ((newPlayerState LEFT)\<lparr> timeMs := 300000, delayRemainingMs := 5000, inDelay := True \<rparr>)
   \<and> snd (UsDelayMethod_onTick 2000
        ((newPlayerState LEFT)\<lparr> timeMs := 300000, delayRemainingMs := 5000, inDelay := True \<rparr>))
       = (newPlayerState LEFT)\<lparr> timeMs := 300000, delayRemainingMs := 3000, inDelay := True \<rparr>"
  using us_delay_overflow_clamped [where k = 2000 and deltaMs = 2000
          and p = "(newPlayerState LEFT)\<lparr> timeMs := 300000, delayRemainingMs := 5000, inDelay := True \<rparr>"]
  by (simp add: newPlayerState_def UsDelayMethod_onTick_def Let_def tickRunning_def)

section \<open>US delay: turn end\<close>

text \<open>
  Claim C9 as stated fails: \<open>onTurnEnd\<close> leaves \<open>inDelay\<close> false, also on a clock that was
  in its delay phase.
\<close>

theorem us_delay_turn_end_counterexample:
  "\<not> inDelay (UsDelayMethod_onTurnEnd
      ((newPlayerState LEFT)\<lparr> timeMs := 300000, delayRemainingMs := 3000, inDelay := True \<rparr>))"
  by (simp add: UsDelayMethod_onTurnEnd_def)

text \<open>
  Claim C9, amended. \<open>onTurnEnd\<close> of the US delay method clears the delay state on any
  clock: \<open>inDelay = false\<close> and \<open>delayRemaining = 0\<close>. The next \<open>onTurnStart\<close> sets
  \<open>inDelay = true\<close> and puts the configured delay back.
\<close>

theorem us_delay_turn_end_clears:
  "inDelay (UsDelayMethod_onTurnEnd p) = False
   \<and> delayRemainingMs (UsDelayMethod_onTurnEnd p) = 0
   \<and> snd (onTurnEnd (UsDelayMethod d) p) = UsDelayMethod_onTurnEnd p
   \<and> inDelay (snd (onTurnStart (UsDelayMethod d) (UsDelayMethod_onTurnEnd p))) = True
   \<and> delayRemainingMs (snd (onTurnStart (UsDelayMethod d) (UsDelayMethod_onTurnEnd p))) = d"
  by (simp add: UsDelayMethod_onTurnEnd_def UsDelayMethod_onTurnStart_def)

section \<open>Byo-yomi: infinite mode\<close>

text \<open>
  Claim C10. With \<open>byoMoments = 0\<close> a tick never reports expiry and leaves the remaining
  time positive, for every delta; when the overflow is at least the moment time the
  remaining time is exactly 1 ms, otherwise it is the moment time minus the overflow; and
  \<open>isExpired\<close> is false on every clock.
\<close>

theorem byo_yomi_infinite_never_expires:
  "expired (fst (onTick (ByoYomiMethod byoT 0 s) deltaMs p)) = False
   \<and> 0 < timeMs (snd (onTick (ByoYomiMethod byoT 0 s) deltaMs p))
   \<and> (timeMs p - deltaMs \<le> 0 \<and> byoT \<le> deltaMs - timeMs p \<longrightarrow>
        timeMs (snd (onTick (ByoYomiMethod byoT 0 s) deltaMs p)) = 1)
   \<and> (timeMs p - deltaMs \<le> 0 \<and> deltaMs - timeMs p < byoT \<longrightarrow>
        timeMs (snd (onTick (ByoYomiMethod byoT 0 s) deltaMs p)) = byoT - (deltaMs - timeMs p))
   \<and> isExpired (ByoYomiMethod byoT 0 s) q = False"
  by (auto simp: ByoYomiMethod_onTick_def ByoYomiMethod_isExpired_def Let_def tickMoment_def tickRunning_def)

theorem byo_yomi_infinite_never_expires_witness:
  "timeMs ((newPlayerState LEFT)\<lparr> timeMs := 100 \<rparr>) - 30000 \<le> 0
   \<and> (20000::int) \<le> 30000 - timeMs ((newPlayerState LEFT)\<lparr> timeMs := 100 \<rparr>)
   \<and> timeMs (snd (onTick (ByoYomiMethod 20000 0 0) 30000 ((newPlayerState LEFT)\<lparr> timeMs := 100 \<rparr>))) = 1
   \<and> timeMs ((newPlayerState LEFT)\<lparr> timeMs := 100 \<rparr>) - 200 \<le> 0
   \<and> 200 - timeMs ((newPlayerState LEFT)\<lparr> timeMs := 100 \<rparr>) < (20000::int)
   \<and> timeMs (snd (onTick (ByoYomiMethod 20000 0 0) 200 ((newPlayerState LEFT)\<lparr> timeMs := 100 \<rparr>))) = 19900"
  using byo_yomi_infinite_never_expires [of 20000 0 30000 "(newPlayerState LEFT)\<lparr> timeMs := 100 \<rparr>"]
        byo_yomi_infinite_never_expires [of 20000 0 200 "(newPlayerState LEFT)\<lparr> timeMs := 100 \<rparr>"]
  by (simp add: newPlayerState_def)

section \<open>Period transition on expiry\<close>

text \<open>
  Claim C1 as stated fails when \<open>P1\<close> is a byo-yomi period, which is a countdown method
  too. With the periods of the preset "1h, then 1x20s byo-yomi", the left side runs out of
  its hour while the right side is still in the first period with its full hour. The
  tick ends with both sides in period 1, but nothing was added to the right clock: it
  was set to the 20 s of a byo-yomi moment, and the hour is gone.
\<close>

theorem time_based_period_sync_counterexample:
  "currentPeriod (right (app_gameState
      (startedApp (plainConfig [timePeriod 3600000, byoYomiPeriod 20000 1] False)))) = 0
   \<and> timeMs (right (app_gameState
      (startedApp (plainConfig [timePeriod 3600000, byoYomiPeriod 20000 1] False)))) = 3600000
   \<and> currentPeriod (right (app_gameState (projr (app_onTick 3600000 7
      (startedApp (plainConfig [timePeriod 3600000, byoYomiPeriod 20000 1] False)))))) = 1
   \<and> timeMs (right (app_gameState (projr (app_onTick 3600000 7
      (startedApp (plainConfig [timePeriod 3600000, byoYomiPeriod 20000 1] False)))))) = 20000
   \<and> timeMs (right (app_gameState (projr (app_onTick 3600000 7
      (startedApp (plainConfig [timePeriod 3600000, byoYomiPeriod 20000 1] False))))))
       < timeMs (right (app_gameState
      (startedApp (plainConfig [timePeriod 3600000, byoYomiPeriod 20000 1] False))))"
  by (simp add: app_gameState_def newApp_def newPeriodManager_def newGameState_def
        newPlayerState_def initGame_def init_def startGame_def pm_init_def pm_onTurnStart_def
        createMethod_def app_onTick_def pm_onTick_def handleExpiry_def isInFinalPeriod_def
        transitionToNextPeriod_def transitionPlayerToPeriod_def setFlag_def getOpponent_def
        countdown_onTick_def tickExpired_def Let_def)

text \<open>
  Claim C1, amended. The configuration has two periods \<open>[P0, P1]\<close>, and \<open>P1\<close> is not the
  \<open>END\<close> sentinel. The match is running with side \<open>A\<close> active in \<open>P0\<close>, and the tick of
  \<open>A\<close>'s method reports expiry. Then the period manager reports a period transition and
  no expiry, the application's tick callback ends in the state the manager leaves, and in
  that state \<open>A\<close> is in period 1 with the non-blinking flag and a method of \<open>P1\<close>'s type.
  \<open>P1\<close>'s time is assigned by \<open>P1\<close>'s family: for sudden death, Fischer, Bronstein delay
  and US delay the period's main time is added to what the clock holds; for byo-yomi and
  Canadian byo-yomi the clock is set to the moment time (and byo-yomi seeds the moment
  count); for up-count the clock is set to 0. If the opponent was still in period 0, it
  is promoted to period 1 in the same way, from what its own clock holds; if it was not,
  its clock and its method are untouched.
\<close>

theorem time_based_period_sync:
  assumes "optionConfig (app_gameState app) = Some config"
    and "periods config = [P0, P1]"
    and "cfg_method P1 \<noteq> END"
    and "status (app_gameState app) = RUNNING"
    and "activePlayer (app_gameState app) = Some A"
    and "activeMethods (periodManager app) A = Some m"
    and "currentPeriod (getPlayer A (app_gameState app)) = 0"
    and "expired (fst (onTick m deltaMs (getPlayer A (app_gameState app))))"
  shows "\<exists>pm'. pm_onTick deltaMs A now (periodManager app)
                 = Inr (\<lparr> pr_expired = False, periodTransition = True \<rparr>, pm')
          \<and> app_onTick deltaMs now app = Inr (app\<lparr> periodManager := pm' \<rparr>)
          \<and> currentPeriod (getPlayer A (gameState pm')) = 1
          \<and> flagState (getPlayer A (gameState pm')) = NON_BLINKING
          \<and> timeMs (getPlayer A (gameState pm'))
              = (if cfg_method P1 = BYO_YOMI \<or> cfg_method P1 = CANADIAN_BYO
                 then orZero (cfg_byoTimeMs P1)
                 else if cfg_method P1 = UPCOUNT then 0
                 else timeMs (snd (onTick m deltaMs (getPlayer A (app_gameState app))))
                      + orZero (cfg_timeMs P1))
          \<and> (cfg_method P1 = BYO_YOMI \<longrightarrow>
                byoMomentsRemaining (getPlayer A (gameState pm')) = orZero (cfg_byoMoments P1))
          \<and> map_option getType (activeMethods pm' A) = Some (cfg_method P1)
          \<and> (currentPeriod (getOpponent A (app_gameState app)) = 0 \<longrightarrow>
                currentPeriod (getOpponent A (gameState pm')) = 1
              \<and> timeMs (getOpponent A (gameState pm'))
                  = (if cfg_method P1 = BYO_YOMI \<or> cfg_method P1 = CANADIAN_BYO
                     then orZero (cfg_byoTimeMs P1)
                     else if cfg_method P1 = UPCOUNT then 0
                     else timeMs (getOpponent A (app_gameState app)) + orZero (cfg_timeMs P1))
              \<and> (cfg_method P1 = BYO_YOMI \<longrightarrow>
                    byoMomentsRemaining (getOpponent A (gameState pm')) = orZero (cfg_byoMoments P1))
              \<and> map_option getType (activeMethods pm' (otherSide A)) = Some (cfg_method P1))
          \<and> (currentPeriod (getOpponent A (app_gameState app)) \<noteq> 0 \<longrightarrow>
                getOpponent A (gameState pm') = getOpponent A (app_gameState app)
              \<and> activeMethods pm' (otherSide A) = activeMethods (periodManager app) (otherSide A))"
proof -
  obtain r pA where t: "onTick m deltaMs (getPlayer A (gameState (periodManager app))) = (r, pA)"
    by (cases "onTick m deltaMs (getPlayer A (gameState (periodManager app)))") auto
  from onTick_frame [OF t] assms(7)
  have cp: "currentPeriod pA = 0" by (simp add: app_gameState_def)
  from t assms(8) have ex: "expired r" by (simp add: app_gameState_def)
  from assms(3) have ty: "getType (createMethod P1) = cfg_method P1"
    by (cases "cfg_method P1") (simp_all add: createMethod_def)
  show ?thesis
    using assms(1-7) t cp ex ty
    by (cases A)
       (auto simp: app_onTick_def app_gameState_def pm_onTick_def handleExpiry_def
          isInFinalPeriod_def transitionToNextPeriod_def transitionPlayerToPeriod_def
          getOpponent_def setFlag_def Let_def)
qed

theorem time_based_period_sync_witness:
  "optionConfig (app_gameState (startedApp (plainConfig [timePeriod 300000, timePeriod 150000] False)))
     = Some (plainConfig [timePeriod 300000, timePeriod 150000] False)
   \<and> periods (plainConfig [timePeriod 300000, timePeriod 150000] False)
       = [timePeriod 300000, timePeriod 150000]
   \<and> cfg_method (timePeriod 150000) \<noteq> END
   \<and> status (app_gameState (startedApp (plainConfig [timePeriod 300000, timePeriod 150000] False)))
       = RUNNING
   \<and> activePlayer (app_gameState (startedApp (plainConfig [timePeriod 300000, timePeriod 150000] False)))
       = Some LEFT
   \<and> activeMethods (periodManager (startedApp (plainConfig [timePeriod 300000, timePeriod 150000] False))) LEFT
       = Some TimeMethod
   \<and> currentPeriod (getPlayer LEFT
        (app_gameState (startedApp (plainConfig [timePeriod 300000, timePeriod 150000] False)))) = 0
   \<and> expired (fst (onTick TimeMethod 300200 (getPlayer LEFT
        (app_gameState (startedApp (plainConfig [timePeriod 300000, timePeriod 150000] False))))))
   \<and> currentPeriod (getOpponent LEFT
        (app_gameState (startedApp (plainConfig [timePeriod 300000, timePeriod 150000] False)))) = 0
   \<and> timeMs (left (app_gameState (projr (app_onTick 300200 7
        (startedApp (plainConfig [timePeriod 300000, timePeriod 150000] False)))))) = 150000
   \<and> timeMs (right (app_gameState (projr (app_onTick 300200 7
        (startedApp (plainConfig [timePeriod 300000, timePeriod 150000] False)))))) = 450000
   \<and> currentPeriod (left (app_gameState (projr (app_onTick 300200 7
        (startedApp (plainConfig [timePeriod 300000, timePeriod 150000] False)))))) = 1
   \<and> currentPeriod (right (app_gameState (projr (app_onTick 300200 7
        (startedApp (plainConfig [timePeriod 300000, timePeriod 150000] False)))))) = 1
   \<and> currentPeriod (getOpponent LEFT (app_gameState (opponentAhead
        (startedApp (plainConfig [timePeriod 300000, timePeriod 150000] False))))) \<noteq> 0
   \<and> timeMs (left (app_gameState (projr (app_onTick 300200 7 (opponentAhead
        (startedApp (plainConfig [timePeriod 300000, timePeriod 150000] False))))))) = 150000
   \<and> timeMs (right (app_gameState (projr (app_onTick 300200 7 (opponentAhead
        (startedApp (plainConfig [timePeriod 300000, timePeriod 150000] False))))))) = 300000
   \<and> currentPeriod (left (app_gameState (projr (app_onTick 300200 7 (opponentAhead
        (startedApp (plainConfig [timePeriod 300000, timePeriod 150000] False))))))) = 1
   \<and> cfg_method (byoYomiPeriod 20000 1) = BYO_YOMI
   \<and> timeMs (right (app_gameState (projr (app_onTick 3600000 7
        (startedApp (plainConfig [timePeriod 3600000, byoYomiPeriod 20000 1] False)))))) = 20000
   \<and> byoMomentsRemaining (right (app_gameState (projr (app_onTick 3600000 7
        (startedApp (plainConfig [timePeriod 3600000, byoYomiPeriod 20000 1] False)))))) = 1"
  using time_based_period_sync
    [where app = "startedApp (plainConfig [timePeriod 300000, timePeriod 150000] False)"
       and config = "plainConfig [timePeriod 300000, timePeriod 150000] False"
       and ?P0.0 = "timePeriod 300000" and ?P1.0 = "timePeriod 150000"
       and A = LEFT and m = TimeMethod and deltaMs = 300200 and now = 7]
    time_based_period_sync
    [where app = "opponentAhead (startedApp (plainConfig [timePeriod 300000, timePeriod 150000] False))"
       and config = "plainConfig [timePeriod 300000, timePeriod 150000] False"
       and ?P0.0 = "timePeriod 300000" and ?P1.0 = "timePeriod 150000"
       and A = LEFT and m = TimeMethod and deltaMs = 300200 and now = 7]
    time_based_period_sync
    [where app = "startedApp (plainConfig [timePeriod 3600000, byoYomiPeriod 20000 1] False)"
       and config = "plainConfig [timePeriod 3600000, byoYomiPeriod 20000 1] False"
       and ?P0.0 = "timePeriod 3600000" and ?P1.0 = "byoYomiPeriod 20000 1"
       and A = LEFT and m = TimeMethod and deltaMs = 3600000 and now = 7]
  by (auto simp: app_gameState_def newApp_def newPeriodManager_def newGameState_def
        newPlayerState_def initGame_def init_def startGame_def pm_init_def pm_onTurnStart_def
        createMethod_def countdown_onTick_def tickExpired_def getOpponent_def Let_def)

section \<open>Expiry, flag and freeze in the tick callback\<close>

text \<open>
  Claim C2. The match is running with side \<open>a\<close> active, and the period manager's result
  for the tick signals expiry. Then the tick callback returns with the flag of \<open>a\<close> set
  (to blinking), whatever the freeze setting; the status is frozen exactly when freeze mode
  is enabled and \<open>a\<close> is in its final period, and then the timer engine is stopped;
  otherwise the status is still running and the timer engine is untouched.
\<close>

theorem tick_expiry_flag_and_freeze:
  assumes "status (app_gameState app) = RUNNING"
    and "activePlayer (app_gameState app) = Some a"
    and "pm_onTick deltaMs a now (periodManager app) = Inr (res, pm1)"
    and "pr_expired res"
  shows "\<exists>app'. app_onTick deltaMs now app = Inr app'
          \<and> flagState (getPlayer a (app_gameState app')) = BLINKING
          \<and> (status (app_gameState app') = FROZEN
               \<longleftrightarrow> freezeEnabled (app_gameState app) \<and> isInFinalPeriod a (app_gameState app))
          \<and> (status (app_gameState app') = FROZEN \<longrightarrow> \<not> running (timerEngine app'))
          \<and> (status (app_gameState app') \<noteq> FROZEN \<longrightarrow>
                status (app_gameState app') = RUNNING \<and> timerEngine app' = timerEngine app)"
proof -
  let ?g = "gameState (periodManager app)"
  from pm_onTick_expired [OF assms(3,4)] obtain m where
    m: "activeMethods (periodManager app) a = Some m" and
    pm1: "pm1 = flagBlinking a now
            ((periodManager app)\<lparr> gameState := setPlayer a (snd (onTick m deltaMs (getPlayer a ?g))) ?g \<rparr>)"
    by blast
  obtain r pA where t: "onTick m deltaMs (getPlayer a ?g) = (r, pA)"
    by (cases "onTick m deltaMs (getPlayer a ?g)") auto
  from onTick_frame [OF t] have cp: "currentPeriod pA = currentPeriod (getPlayer a ?g)" by simp
  have g1: "gameState pm1 = setPlayer a (setFlag BLINKING now pA) (setPlayer a pA ?g)"
    using pm1 t by (simp add: flagBlinking_def)
  have fin: "isInFinalPeriod a (gameState pm1) = isInFinalPeriod a ?g"
    using g1 cp by (simp add: isInFinalPeriod_def setFlag_def split: option.splits)
  have fl: "flagState (getPlayer a (gameState pm1)) = BLINKING"
    using g1 by (simp add: setFlag_def)
  have st: "status (gameState pm1) = RUNNING" "freezeEnabled (gameState pm1) = freezeEnabled ?g"
    using g1 assms(1) by (simp_all add: app_gameState_def)
  have stop: "\<not> running (snd (te_stop (timerEngine app)))"
    by (auto simp: te_stop_def cancelPending_def split: option.splits)
  show ?thesis
  proof (cases "freezeEnabled ?g \<and> isInFinalPeriod a ?g")
    case True
    with assms fin fl st stop show ?thesis
      by (cases a) (auto simp: app_onTick_def app_gameState_def freeze_def Let_def)
  next
    case False
    with assms fin fl st show ?thesis
      by (cases a) (auto simp: app_onTick_def app_gameState_def Let_def)
  qed
qed

theorem tick_expiry_flag_and_freeze_witness:
  "status (app_gameState (startedApp (plainConfig [timePeriod 5000] True))) = RUNNING
   \<and> activePlayer (app_gameState (startedApp (plainConfig [timePeriod 5000] True))) = Some LEFT
   \<and> pm_onTick 5000 LEFT 7 (periodManager (startedApp (plainConfig [timePeriod 5000] True)))
       = Inr (projr (pm_onTick 5000 LEFT 7
                (periodManager (startedApp (plainConfig [timePeriod 5000] True)))))
   \<and> pr_expired (fst (projr (pm_onTick 5000 LEFT 7
        (periodManager (startedApp (plainConfig [timePeriod 5000] True))))))
   \<and> running (timerEngine (startedApp (plainConfig [timePeriod 5000] True)))
   \<and> status (app_gameState (projr (app_onTick 5000 7
        (startedApp (plainConfig [timePeriod 5000] True))))) = FROZEN
   \<and> \<not> running (timerEngine (projr (app_onTick 5000 7
        (startedApp (plainConfig [timePeriod 5000] True)))))
   \<and> flagState (left (app_gameState (projr (app_onTick 5000 7
        (startedApp (plainConfig [timePeriod 5000] True)))))) = BLINKING
   \<and> status (app_gameState (projr (app_onTick 5000 7
        (startedApp (plainConfig [timePeriod 5000] False))))) = RUNNING
   \<and> flagState (left (app_gameState (projr (app_onTick 5000 7
        (startedApp (plainConfig [timePeriod 5000] False)))))) = BLINKING"
proof -
  have ex: "\<exists>pm1. pm_onTick 5000 LEFT 7 (periodManager (startedApp (plainConfig [timePeriod 5000] fr)))
      = Inr (\<lparr> pr_expired = True, periodTransition = False \<rparr>, pm1)" for fr
    by (simp add: newApp_def newPeriodManager_def newGameState_def
        newPlayerState_def initGame_def init_def startGame_def pm_init_def pm_onTurnStart_def createMethod_def
        pm_onTick_def handleExpiry_def isInFinalPeriod_def
        countdown_onTick_def tickExpired_def Let_def)
  from ex [of True] obtain p1 where
    run1: "pm_onTick 5000 LEFT 7 (periodManager (startedApp (plainConfig [timePeriod 5000] True)))
      = Inr (\<lparr> pr_expired = True, periodTransition = False \<rparr>, p1)" by blast
  from ex [of False] obtain p2 where
    run2: "pm_onTick 5000 LEFT 7 (periodManager (startedApp (plainConfig [timePeriod 5000] False)))
      = Inr (\<lparr> pr_expired = True, periodTransition = False \<rparr>, p2)" by blast
  have s1: "status (app_gameState (startedApp (plainConfig [timePeriod 5000] fr))) = RUNNING" for fr
    by (simp add: app_gameState_def newApp_def newPeriodManager_def newGameState_def
        initGame_def startGame_def pm_init_def pm_onTurnStart_def createMethod_def)
  have s2: "activePlayer (app_gameState (startedApp (plainConfig [timePeriod 5000] fr))) = Some LEFT" for fr
    by (simp add: app_gameState_def newApp_def newPeriodManager_def newGameState_def
        initGame_def startGame_def pm_init_def pm_onTurnStart_def createMethod_def)
  have s3: "freezeEnabled (app_gameState (startedApp (plainConfig [timePeriod 5000] fr))) = fr
      \<and> isInFinalPeriod LEFT (app_gameState (startedApp (plainConfig [timePeriod 5000] fr)))" for fr
    by (simp add: app_gameState_def newApp_def newPeriodManager_def newGameState_def
        newPlayerState_def initGame_def init_def startGame_def pm_init_def pm_onTurnStart_def
        createMethod_def isInFinalPeriod_def)
  have s4: "running (timerEngine (startedApp (plainConfig [timePeriod 5000] True)))"
    by (simp add: newApp_def te_start_def setTickCallback_def newTimerEngine_def)
  have pe: "pr_expired \<lparr> pr_expired = True, periodTransition = False \<rparr>" by simp
  from tick_expiry_flag_and_freeze [OF s1 [of True] s2 [of True] run1 pe] s3 [of True]
  obtain a1 where a1: "app_onTick 5000 7 (startedApp (plainConfig [timePeriod 5000] True)) = Inr a1"
      "flagState (getPlayer LEFT (app_gameState a1)) = BLINKING"
      "status (app_gameState a1) = FROZEN" "\<not> running (timerEngine a1)"
    by auto
  from tick_expiry_flag_and_freeze [OF s1 [of False] s2 [of False] run2 pe] s3 [of False]
  obtain a2 where a2: "app_onTick 5000 7 (startedApp (plainConfig [timePeriod 5000] False)) = Inr a2"
      "flagState (getPlayer LEFT (app_gameState a2)) = BLINKING"
      "status (app_gameState a2) = RUNNING"
    by auto
  have r1: "pm_onTick 5000 LEFT 7 (periodManager (startedApp (plainConfig [timePeriod 5000] True)))
       = Inr (projr (pm_onTick 5000 LEFT 7
                (periodManager (startedApp (plainConfig [timePeriod 5000] True)))))"
    using run1 by simp
  have r2: "pr_expired (fst (projr (pm_onTick 5000 LEFT 7
        (periodManager (startedApp (plainConfig [timePeriod 5000] True))))))"
    using run1 by simp
  from a1 a2 have fin:
    "status (app_gameState (projr (app_onTick 5000 7
        (startedApp (plainConfig [timePeriod 5000] True))))) = FROZEN"
    "\<not> running (timerEngine (projr (app_onTick 5000 7
        (startedApp (plainConfig [timePeriod 5000] True)))))"
    "flagState (left (app_gameState (projr (app_onTick 5000 7
        (startedApp (plainConfig [timePeriod 5000] True)))))) = BLINKING"
    "status (app_gameState (projr (app_onTick 5000 7
        (startedApp (plainConfig [timePeriod 5000] False))))) = RUNNING"
    "flagState (left (app_gameState (projr (app_onTick 5000 7
        (startedApp (plainConfig [timePeriod 5000] False)))))) = BLINKING"
    by simp_all
  from s1 [of True] s2 [of True] r1 r2 s4 fin show ?thesis by blast
qed

section \<open>The deltas the timer engine delivers\<close>

text \<open>
  Claim C6. While the engine runs with a tick callback, a frame tick delivers the
  monotonic-clock difference to the previous timestamp, capped at 1000 ms, and delivers
  nothing when that difference is not positive. A change to visible cancels a pending
  frame, delivers the wall-clock time since the engine was hidden as one tick without a
  cap (nothing when it is not positive), and only then requests the next frame, with the
  monotonic baseline read afresh. A change to hidden delivers nothing, leaves no frame
  pending and records the wall-clock time. While the engine does not run, visibility
  changes and frame callbacks do nothing at all.
\<close>

theorem scheduler_deltas:
  "(running te \<and> hasTickCallback te \<longrightarrow>
      delivered (fst (te_tick timestamp rid te))
        = (if 0 < timestamp - lastTimestamp te
           then [min (timestamp - lastTimestamp te) 1000] else [])
    \<and> lastTimestamp (snd (te_tick timestamp rid te)) = timestamp
    \<and> fst (handleVisibilityChange True dateNow perfNow rid te)
        = (case rafId te of Some i \<Rightarrow> [CancelFrame i] | None \<Rightarrow> [])
          @ (if 0 < dateNow - hiddenAtWallClock te
             then [Deliver (dateNow - hiddenAtWallClock te)] else [])
          @ [RequestFrame]
    \<and> lastTimestamp (snd (handleVisibilityChange True dateNow perfNow rid te)) = perfNow
    \<and> rafId (snd (handleVisibilityChange True dateNow perfNow rid te)) = Some rid
    \<and> delivered (fst (handleVisibilityChange False dateNow perfNow rid te)) = []
    \<and> rafId (snd (handleVisibilityChange False dateNow perfNow rid te)) = None
    \<and> hiddenAtWallClock (snd (handleVisibilityChange False dateNow perfNow rid te)) = dateNow)
   \<and> (\<not> running te \<longrightarrow>
        handleVisibilityChange visible dateNow perfNow rid te = ([], te)
      \<and> te_tick timestamp rid te = ([], te))"
  by (auto simp: te_tick_def handleVisibilityChange_def cancelPending_def Let_def
      split: option.splits)

theorem scheduler_deltas_witness:
  "running (snd (te_start 1000 1 (setTickCallback newTimerEngine)))
   \<and> hasTickCallback (snd (te_start 1000 1 (setTickCallback newTimerEngine)))
   \<and> delivered (fst (te_tick 1016 2 (snd (te_start 1000 1 (setTickCallback newTimerEngine))))) = [16]
   \<and> delivered (fst (te_tick 5000 2 (snd (te_start 1000 1 (setTickCallback newTimerEngine))))) = [1000]
   \<and> running (snd (handleVisibilityChange False 100000 1016 2
        (snd (te_start 1000 1 (setTickCallback newTimerEngine)))))
   \<and> hasTickCallback (snd (handleVisibilityChange False 100000 1016 2
        (snd (te_start 1000 1 (setTickCallback newTimerEngine)))))
   \<and> fst (handleVisibilityChange True 103000 1016 3
        (snd (handleVisibilityChange False 100000 1016 2
          (snd (te_start 1000 1 (setTickCallback newTimerEngine))))))
       = [Deliver 3000, RequestFrame]
   \<and> \<not> running (setTickCallback newTimerEngine)
   \<and> handleVisibilityChange True 103000 1016 3 (setTickCallback newTimerEngine)
       = ([], setTickCallback newTimerEngine)"
  using scheduler_deltas [where te = "snd (te_start 1000 1 (setTickCallback newTimerEngine))"
          and timestamp = 1016 and rid = 2]
        scheduler_deltas [where te = "snd (te_start 1000 1 (setTickCallback newTimerEngine))"
          and timestamp = 5000 and rid = 2]
        scheduler_deltas [where te = "snd (handleVisibilityChange False 100000 1016 2
            (snd (te_start 1000 1 (setTickCallback newTimerEngine))))"
          and dateNow = 103000 and perfNow = 1016 and rid = 3]
        scheduler_deltas [where te = "setTickCallback newTimerEngine" and visible = True
          and dateNow = 103000 and perfNow = 1016 and rid = 3]
  by (simp add: te_start_def setTickCallback_def newTimerEngine_def handleVisibilityChange_def
        cancelPending_def)



section \<open>Rejecting a configuration without periods\<close>

text \<open>
  Claim C7 as stated fails in its second half: \<open>initGame\<close> with an empty period list
  throws, but the state it leaves is not the one it found. On a fresh \<open>GameState\<close> the
  rejected configuration is stored and its freeze default is applied.
\<close>

theorem init_game_failure_counterexample:
  "isl (initGame (plainConfig [] True) newGameState)
   \<and> snd (projl (initGame (plainConfig [] True) newGameState)) \<noteq> newGameState
   \<and> freezeEnabled newGameState = False
   \<and> freezeEnabled (snd (projl (initGame (plainConfig [] True) newGameState))) = True
   \<and> optionConfig newGameState = None
   \<and> optionConfig (snd (projl (initGame (plainConfig [] True) newGameState)))
       = Some (plainConfig [] True)"
  by (simp add: initGame_def newGameState_def)

text \<open>
  Claim C7, amended. \<open>initGame\<close> fails exactly when the configuration has no periods, and
  in that case it throws the configuration error and leaves both clocks as they were.
\<close>

theorem init_game_fails_on_empty_periods:
  "(isl (initGame config g) \<longleftrightarrow> periods config = [])
   \<and> (periods config = [] \<longrightarrow>
        fst (projl (initGame config g)) = ConfigError
      \<and> left (snd (projl (initGame config g))) = left g
      \<and> right (snd (projl (initGame config g))) = right g)"
  by (auto simp: initGame_def Let_def split: list.splits)

theorem init_game_fails_on_empty_periods_witness:
  "periods (plainConfig [] True) = []
   \<and> isl (initGame (plainConfig [] True) newGameState)
   \<and> fst (projl (initGame (plainConfig [] True) newGameState)) = ConfigError
   \<and> left (snd (projl (initGame (plainConfig [] True) newGameState))) = newPlayerState LEFT
   \<and> right (snd (projl (initGame (plainConfig [] True) newGameState))) = newPlayerState RIGHT
   \<and> \<not> isl (initGame (plainConfig [timePeriod 300000] True) newGameState)"
  using init_game_fails_on_empty_periods [of "plainConfig [] True" newGameState]
        init_game_fails_on_empty_periods [of "plainConfig [timePeriod 300000] True" newGameState]
  by (simp add: newGameState_def)

section \<open>Applying a correction\<close>

text \<open>
  The correction writes the times and the move counts of the two clocks as they are
  given.
\<close>

lemma applyCorrection_values_as_given:
  "timeMs (left (app_gameState (applyCorrection c app))) = c_leftTimeMs c
   \<and> timeMs (right (app_gameState (applyCorrection c app))) = c_rightTimeMs c
   \<and> moves (left (app_gameState (applyCorrection c app))) = c_leftMoves c
   \<and> moves (right (app_gameState (applyCorrection c app))) = c_rightMoves c"
  by (simp add: applyCorrection_def app_gameState_def exitCorrectionMode_def syncMethod_def Let_def
      split: option.splits)

text \<open>
  Claim C8 as stated fails for the move count: a correction to -3 moves for the left side
  is clamped to 0 in the move counter, but the left clock's own move count ends at -3.
\<close>

theorem correction_move_count_counterexample:
  "moves (left (app_gameState (applyCorrection
      \<lparr> c_leftTimeMs = 60000, c_rightTimeMs = 90000, c_leftMoves = - 3, c_rightMoves = 12,
        c_leftPeriod = 7, c_rightPeriod = - 2 \<rparr>
      (correctingApp (plainConfig [timePeriod 300000, timePeriod 150000] False))))) = - 3
   \<and> leftMoves (moveCounter (applyCorrection
      \<lparr> c_leftTimeMs = 60000, c_rightTimeMs = 90000, c_leftMoves = - 3, c_rightMoves = 12,
        c_leftPeriod = 7, c_rightPeriod = - 2 \<rparr>
      (correctingApp (plainConfig [timePeriod 300000, timePeriod 150000] False)))) = 0"
  using applyCorrection_values_as_given
    [of "\<lparr> c_leftTimeMs = 60000, c_rightTimeMs = 90000, c_leftMoves = - 3, c_rightMoves = 12,
           c_leftPeriod = 7, c_rightPeriod = - 2 \<rparr>"
        "correctingApp (plainConfig [timePeriod 300000, timePeriod 150000] False)"]
  by (simp add: applyCorrection_def setMoves_def newApp_def newMoveCounter_def Let_def)

text \<open>
  Claim C8, amended. In a configured match (a configuration with at least one period),
  applying a correction never rejects its input. For each side \<open>s\<close>: the period index
  becomes the given one clamped to \<open>[0, totalPeriods - 1]\<close>; the move counter's count for
  \<open>s\<close> becomes the given one clamped to at least 0; and the timing method of \<open>s\<close> is a
  fresh instance for the period the side ends in, of that period's method (sudden death
  for the \<open>END\<close> sentinel) and with that period's parameters: bonus and required moves
  for Fischer, delay for Bronstein and US delay, moment time and moment count for
  byo-yomi, moment time capped at 9:59 and required moves for Canadian byo-yomi, with the
  per-instance counters at 0.
\<close>

theorem correction_clamps_inputs:
  assumes "optionConfig (app_gameState app) = Some config"
    and "periods config \<noteq> []"
  shows "currentPeriod (getPlayer s (app_gameState (applyCorrection c app)))
           = max 0 (min (if s = LEFT then c_leftPeriod c else c_rightPeriod c)
                        (int (length (periods config)) - 1))
       \<and> 0 \<le> currentPeriod (getPlayer s (app_gameState (applyCorrection c app)))
       \<and> currentPeriod (getPlayer s (app_gameState (applyCorrection c app)))
           \<le> int (length (periods config)) - 1
       \<and> getMoves s (moveCounter (applyCorrection c app))
           = max 0 (if s = LEFT then c_leftMoves c else c_rightMoves c)
       \<and> 0 \<le> getMoves s (moveCounter (applyCorrection c app))
       \<and> activeMethods (periodManager (applyCorrection c app)) s
           = (let pc = periods config
                         ! nat (currentPeriod (getPlayer s (app_gameState (applyCorrection c app))))
              in Some (case cfg_method pc of
                         TIME \<Rightarrow> TimeMethod
                       | FISCHER \<Rightarrow>
                           FischerMethod (orZero (cfg_delayMs pc)) (orZero (cfg_movesRequired pc))
                       | US_DELAY \<Rightarrow> UsDelayMethod (orZero (cfg_delayMs pc))
                       | DELAY \<Rightarrow> BronsteinDelayMethod (orZero (cfg_delayMs pc))
                       | BYO_YOMI \<Rightarrow>
                           ByoYomiMethod (orZero (cfg_byoTimeMs pc)) (orZero (cfg_byoMoments pc)) 0
                       | CANADIAN_BYO \<Rightarrow>
                           CanadianByoYomiMethod (min (orZero (cfg_byoTimeMs pc)) 599000)
                             (orZero (cfg_movesRequired pc)) 0
                       | UPCOUNT \<Rightarrow> UpcountMethod
                       | END \<Rightarrow> TimeMethod))"
proof -
  let ?n = "int (length (periods config))"
  let ?l = "max 0 (min (c_leftPeriod c) (?n - 1))"
  let ?r = "max 0 (min (c_rightPeriod c) (?n - 1))"
  from assms(2) have len: "0 < ?n" by simp
  have inl: "0 \<le> ?l \<and> ?l < ?n" using len by auto
  have inr: "0 \<le> ?r \<and> ?r < ?n" using len by auto
  have g: "app_gameState (applyCorrection c app)
      = exitCorrectionMode ((gameState (periodManager app))
          \<lparr> left := (left (gameState (periodManager app)))
               \<lparr> timeMs := c_leftTimeMs c, moves := c_leftMoves c, currentPeriod := ?l \<rparr>,
            right := (right (gameState (periodManager app)))
               \<lparr> timeMs := c_rightTimeMs c, moves := c_rightMoves c, currentPeriod := ?r \<rparr> \<rparr>)"
    using assms(1)
    by (simp add: applyCorrection_def app_gameState_def Let_def syncMethod_def split: option.splits)
  have l: "currentPeriod (left (app_gameState (applyCorrection c app))) = ?l"
    by (simp add: g exitCorrectionMode_def)
  have r: "currentPeriod (right (app_gameState (applyCorrection c app))) = ?r"
    by (simp add: g exitCorrectionMode_def)
  have mc: "moveCounter (applyCorrection c app)
      = setMoves RIGHT (c_rightMoves c) (setMoves LEFT (c_leftMoves c) (moveCounter app))"
    by (simp add: applyCorrection_def Let_def)
  have ml: "activeMethods (periodManager (applyCorrection c app)) LEFT
      = Some (createMethod (periods config ! nat ?l))"
    using assms(1) inl inr
    by (simp add: applyCorrection_def app_gameState_def Let_def syncMethod_def periodAt_def)
  have mr: "activeMethods (periodManager (applyCorrection c app)) RIGHT
      = Some (createMethod (periods config ! nat ?r))"
    using assms(1) inl inr
    by (simp add: applyCorrection_def app_gameState_def Let_def syncMethod_def periodAt_def)
  show ?thesis
  proof (cases s)
    case LEFT
    with l inl mc ml show ?thesis
      by (simp add: setMoves_def getMoves_def createMethod_def Let_def)
  next
    case RIGHT
    with r inr mc mr show ?thesis
      by (simp add: setMoves_def getMoves_def createMethod_def Let_def)
  qed
qed

theorem correction_clamps_inputs_witness:
  "optionConfig (app_gameState (correctingApp (plainConfig [timePeriod 300000, byoYomiPeriod 20000 5] False)))
     = Some (plainConfig [timePeriod 300000, byoYomiPeriod 20000 5] False)
   \<and> periods (plainConfig [timePeriod 300000, byoYomiPeriod 20000 5] False) \<noteq> []
   \<and> currentPeriod (left (app_gameState (applyCorrection
        \<lparr> c_leftTimeMs = 60000, c_rightTimeMs = 90000, c_leftMoves = - 3, c_rightMoves = 12,
          c_leftPeriod = 7, c_rightPeriod = - 2 \<rparr>
        (correctingApp (plainConfig [timePeriod 300000, byoYomiPeriod 20000 5] False))))) = 1
   \<and> currentPeriod (right (app_gameState (applyCorrection
        \<lparr> c_leftTimeMs = 60000, c_rightTimeMs = 90000, c_leftMoves = - 3, c_rightMoves = 12,
          c_leftPeriod = 7, c_rightPeriod = - 2 \<rparr>
        (correctingApp (plainConfig [timePeriod 300000, byoYomiPeriod 20000 5] False))))) = 0
   \<and> leftMoves (moveCounter (applyCorrection
        \<lparr> c_leftTimeMs = 60000, c_rightTimeMs = 90000, c_leftMoves = - 3, c_rightMoves = 12,
          c_leftPeriod = 7, c_rightPeriod = - 2 \<rparr>
        (correctingApp (plainConfig [timePeriod 300000, byoYomiPeriod 20000 5] False)))) = 0
   \<and> rightMoves (moveCounter (applyCorrection
        \<lparr> c_leftTimeMs = 60000, c_rightTimeMs = 90000, c_leftMoves = - 3, c_rightMoves = 12,
          c_leftPeriod = 7, c_rightPeriod = - 2 \<rparr>
        (correctingApp (plainConfig [timePeriod 300000, byoYomiPeriod 20000 5] False)))) = 12
   \<and> activeMethods (periodManager (applyCorrection
        \<lparr> c_leftTimeMs = 60000, c_rightTimeMs = 90000, c_leftMoves = - 3, c_rightMoves = 12,
          c_leftPeriod = 7, c_rightPeriod = - 2 \<rparr>
        (correctingApp (plainConfig [timePeriod 300000, byoYomiPeriod 20000 5] False)))) LEFT
       = Some (ByoYomiMethod 20000 5 0)
   \<and> activeMethods (periodManager (applyCorrection
        \<lparr> c_leftTimeMs = 60000, c_rightTimeMs = 90000, c_leftMoves = - 3, c_rightMoves = 12,
          c_leftPeriod = 7, c_rightPeriod = - 2 \<rparr>
        (correctingApp (plainConfig [timePeriod 300000, byoYomiPeriod 20000 5] False)))) RIGHT
       = Some TimeMethod"
  using correction_clamps_inputs
    [where app = "correctingApp (plainConfig [timePeriod 300000, byoYomiPeriod 20000 5] False)"
       and config = "plainConfig [timePeriod 300000, byoYomiPeriod 20000 5] False"
       and s = LEFT
       and c = "\<lparr> c_leftTimeMs = 60000, c_rightTimeMs = 90000, c_leftMoves = - 3,
                  c_rightMoves = 12, c_leftPeriod = 7, c_rightPeriod = - 2 \<rparr>"]
    correction_clamps_inputs
    [where app = "correctingApp (plainConfig [timePeriod 300000, byoYomiPeriod 20000 5] False)"
       and config = "plainConfig [timePeriod 300000, byoYomiPeriod 20000 5] False"
       and s = RIGHT
       and c = "\<lparr> c_leftTimeMs = 60000, c_rightTimeMs = 90000, c_leftMoves = - 3,
                  c_rightMoves = 12, c_leftPeriod = 7, c_rightPeriod = - 2 \<rparr>"]
  by (simp add: app_gameState_def newApp_def newPeriodManager_def newGameState_def
        initGame_def startGame_def pm_init_def pm_onTurnStart_def createMethod_def
        pause_def enterCorrectionMode_def getMoves_def Let_def)

end
